theory Spec2Isabelle
  imports Main "HOL-Library.Monad_Syntax"
begin

section \<open>The editing core of treemanager.py\<close>

text \<open>
  The theory embeds \<^verbatim>\<open>src/lib/eco/treemanager.py\<close>: \<^verbatim>\<open>Line\<close>, \<^verbatim>\<open>Cursor\<close>,
  \<^verbatim>\<open>UndoObject\<close>, \<^verbatim>\<open>UndoManager\<close> and \<^verbatim>\<open>TreeManager\<close>.

  Python objects are compared by identity (\<^verbatim>\<open>is\<close>), are shared, and are mutated in place,
  so nodes and roots live in an arena and are named by their index. A reference that may
  be \<^verbatim>\<open>None\<close> is a \<open>nat option\<close>. Every function that can raise, or whose loop may
  not end, returns an \<open>option\<close>: \<open>None\<close> stands for a raised exception
  (\<^verbatim>\<open>AttributeError\<close> on \<^verbatim>\<open>None\<close>, \<^verbatim>\<open>IndexError\<close>, \<^verbatim>\<open>AssertionError\<close>,
  \<^verbatim>\<open>NameError\<close>) and for a loop that has used up its fuel. Each \<^verbatim>\<open>while\<close> loop
  is a function recursive on a fuel argument \<open>k\<close>; every loop of one call starts with
  the same \<open>k\<close>.
\<close>

subsection \<open>Python lists and strings\<close>

definition CR :: char where
  "CR = CHR 0x0D"

text \<open>\<^verbatim>\<open>str(text).startswith("\r")\<close>\<close>

fun startswith_cr :: "string \<Rightarrow> bool" where
  "startswith_cr [] = False"
| "startswith_cr (c # cs) = (c = CR)"

text \<open>An index of a slice: negative counts from the end, then clamped to the list.\<close>

definition slice_index :: "int \<Rightarrow> nat \<Rightarrow> nat" where
  "slice_index i n = (if i < 0 then nat (int n + i) else min (nat i) n)"

text \<open>\<^verbatim>\<open>xs[i]\<close>: negative counts from the end; out of range raises \<^verbatim>\<open>IndexError\<close>.\<close>

definition item_index :: "int \<Rightarrow> nat \<Rightarrow> nat option" where
  "item_index i n =
     (let j = (if i < 0 then int n + i else i)
      in if 0 \<le> j \<and> j < int n then Some (nat j) else None)"

definition py_get :: "'a list \<Rightarrow> int \<Rightarrow> 'a option" where
  "py_get xs i = map_option (\<lambda>j. xs ! j) (item_index i (length xs))"

text \<open>\<^verbatim>\<open>xs[i] = v\<close> on an index that \<^verbatim>\<open>xs[i]\<close> has read.\<close>

definition py_set :: "'a list \<Rightarrow> int \<Rightarrow> 'a \<Rightarrow> 'a list option" where
  "py_set xs i v = map_option (\<lambda>j. xs[j := v]) (item_index i (length xs))"

text \<open>\<^verbatim>\<open>del xs[i:]\<close>\<close>

definition del_from :: "'a list \<Rightarrow> int \<Rightarrow> 'a list" where
  "del_from xs i = take (slice_index i (length xs)) xs"

text \<open>\<^verbatim>\<open>del xs[i]\<close>\<close>

definition del_item :: "'a list \<Rightarrow> int \<Rightarrow> 'a list option" where
  "del_item xs i = map_option (\<lambda>j. take j xs @ drop (Suc j) xs) (item_index i (length xs))"

text \<open>\<^verbatim>\<open>del xs[a:b]\<close>\<close>

definition del_slice :: "'a list \<Rightarrow> int \<Rightarrow> int \<Rightarrow> 'a list" where
  "del_slice xs a b =
     (let a' = slice_index a (length xs); b' = slice_index b (length xs)
      in take a' xs @ drop (max a' b') xs)"

text \<open>\<^verbatim>\<open>xs.insert(i, v)\<close>\<close>

definition py_insert :: "'a list \<Rightarrow> int \<Rightarrow> 'a \<Rightarrow> 'a list" where
  "py_insert xs i v =
     (let j = slice_index i (length xs) in take j xs @ v # drop j xs)"

text \<open>\<^verbatim>\<open>len(s)\<close> as a Python integer.\<close>

abbreviation len :: "'a list \<Rightarrow> int" where
  "len xs \<equiv> int (length xs)"

subsection \<open>Nodes, roots and the arena\<close>

text \<open>
  The classes \<^verbatim>\<open>TextNode\<close>, \<^verbatim>\<open>BOS\<close>, \<^verbatim>\<open>EOS\<close> (incparser.astree) and
  \<^verbatim>\<open>Terminal\<close>, \<^verbatim>\<open>MagicTerminal\<close>, \<^verbatim>\<open>IndentationTerminal\<close> (grammar_parser.gparser)
  are imported by treemanager.py, and their source is not among the files. The record has
  the attributes that treemanager.py reads and writes.
\<close>

datatype node_class = BOS | EOS | TextNode

datatype symbol_class = Terminal | MagicTerminal | IndentationTerminal

record node =
  cls :: node_class            \<comment> \<open>\<^verbatim>\<open>isinstance(node, BOS)\<close>, \<^verbatim>\<open>isinstance(node, EOS)\<close>\<close>
  symbol :: symbol_class       \<comment> \<open>\<^verbatim>\<open>isinstance(node.symbol, ...)\<close>\<close>
  name :: string               \<comment> \<open>\<^verbatim>\<open>node.symbol.name\<close>\<close>
  ast :: "nat option"          \<comment> \<open>\<^verbatim>\<open>node.symbol.ast\<close>, also \<^verbatim>\<open>node.symbol.parser\<close>: the nested root\<close>
  lookup :: string             \<comment> \<open>\<^verbatim>\<open>node.lookup\<close>, the token class the lexer assigned\<close>
  prev_term :: "nat option"
  next_term :: "nat option"
  in_root :: nat               \<comment> \<open>the result of \<^verbatim>\<open>node.get_root()\<close>\<close>
  img :: bool                  \<comment> \<open>\<^verbatim>\<open>node.image\<close> is not \<^verbatim>\<open>None\<close>\<close>
  plain_mode :: bool
  deleted :: bool

record root =
  bos :: nat                          \<comment> \<open>\<^verbatim>\<open>root.children[0]\<close>\<close>
  eos :: nat                          \<comment> \<open>\<^verbatim>\<open>root.children[-1]\<close>\<close>
  magic_backpointer :: "nat option"   \<comment> \<open>\<^verbatim>\<open>root.get_magicterminal()\<close>\<close>

record store =
  nodes :: "node list"
  roots :: "root list"

definition get_node :: "store \<Rightarrow> nat \<Rightarrow> node option" where
  "get_node s i = (if i < length (nodes s) then Some (nodes s ! i) else None)"

definition get_root :: "store \<Rightarrow> nat \<Rightarrow> root option" where
  "get_root s r = (if r < length (roots s) then Some (roots s ! r) else None)"

definition set_node :: "store \<Rightarrow> nat \<Rightarrow> node \<Rightarrow> store" where
  "set_node s i n = s\<lparr>nodes := (nodes s)[i := n]\<rparr>"

text \<open>\<^verbatim>\<open>TextNode(Terminal(text))\<close>, \<^verbatim>\<open>TextNode(IndentationTerminal(text))\<close>: a fresh object.\<close>

definition new_node :: "symbol_class \<Rightarrow> string \<Rightarrow> node" where
  "new_node sy t = \<lparr>cls = TextNode, symbol = sy, name = t, ast = None, lookup = [],
     prev_term = None, next_term = None, in_root = 0, img = False, plain_mode = False,
     deleted = False\<rparr>"

definition alloc :: "store \<Rightarrow> node \<Rightarrow> nat \<times> store" where
  "alloc s n = (length (nodes s), s\<lparr>nodes := nodes s @ [n]\<rparr>)"

text \<open>
  Modelled from the spec: \<^verbatim>\<open>Node.insert_after\<close> of incparser.astree, which is not among
  the source files. The new node is linked into the chain right after the node, in the
  same root.
\<close>

definition insert_after :: "store \<Rightarrow> nat \<Rightarrow> nat \<Rightarrow> store option" where
  "insert_after s i new = do {
     n \<leftarrow> get_node s i;
     m \<leftarrow> get_node s new;
     let s1 = set_node s new (m\<lparr>prev_term := Some i, next_term := next_term n,
                                  in_root := in_root n\<rparr>);
     let s2 = set_node s1 i (n\<lparr>next_term := Some new\<rparr>);
     case next_term n of
       None \<Rightarrow> Some s2
     | Some j \<Rightarrow> do {
         nx \<leftarrow> get_node s2 j;
         Some (set_node s2 j (nx\<lparr>prev_term := Some new\<rparr>)) } }"

text \<open>
  Modelled from the spec: \<^verbatim>\<open>Node.remove_child\<close> of incparser.astree, which is not among
  the source files, as \<^verbatim>\<open>node.parent.remove_child(node)\<close> uses it. The node is spliced
  out of its chain and marked deleted; it keeps its own links.
\<close>

definition remove_child :: "store \<Rightarrow> nat \<Rightarrow> store option" where
  "remove_child s i = do {
     n \<leftarrow> get_node s i;
     let s1 = set_node s i (n\<lparr>deleted := True\<rparr>);
     s2 \<leftarrow> (case prev_term n of
             None \<Rightarrow> Some s1
           | Some p \<Rightarrow> do {
               pn \<leftarrow> get_node s1 p;
               Some (set_node s1 p (pn\<lparr>next_term := next_term n\<rparr>)) });
     case next_term n of
       None \<Rightarrow> Some s2
     | Some j \<Rightarrow> do {
         nx \<leftarrow> get_node s2 j;
         Some (set_node s2 j (nx\<lparr>prev_term := prev_term n\<rparr>)) } }"

text \<open>
  Modelled from the spec: \<^verbatim>\<open>Node.insert(text, pos)\<close> of incparser.astree, which is not
  among the source files: the text is spliced into the node's text at the offset.
\<close>

definition node_insert :: "store \<Rightarrow> nat \<Rightarrow> string \<Rightarrow> int \<Rightarrow> store option" where
  "node_insert s i t p = do {
     n \<leftarrow> get_node s i;
     let j = slice_index p (length (name n));
     Some (set_node s i (n\<lparr>name := take j (name n) @ t @ drop j (name n)\<rparr>)) }"

text \<open>
  Modelled from the spec: \<^verbatim>\<open>Node.backspace(pos)\<close> of incparser.astree, which is not
  among the source files: it removes the character at the offset (the one to the right
  of a cursor standing there) and returns it.
\<close>

definition node_backspace :: "store \<Rightarrow> nat \<Rightarrow> int \<Rightarrow> (string \<times> store) option" where
  "node_backspace s i p = do {
     n \<leftarrow> get_node s i;
     j \<leftarrow> item_index p (length (name n));
     Some ([name n ! j], set_node s i (n\<lparr>name := take j (name n) @ drop (Suc j) (name n)\<rparr>)) }"

text \<open>\<^verbatim>\<open>node.get_root()\<close> followed by \<^verbatim>\<open>root.get_magicterminal()\<close>.\<close>

definition get_magicterminal :: "store \<Rightarrow> node \<Rightarrow> nat option option" where
  "get_magicterminal s n = map_option magic_backpointer (get_root s (in_root n))"

subsection \<open>Line\<close>

record Line =
  l_node :: nat     \<comment> \<open>this line's newline node\<close>
  height :: int
  width :: int
  indent :: int
  ws :: int

definition mk_Line :: "nat \<Rightarrow> Line" where
  "mk_Line n = \<lparr>l_node = n, height = 1, width = 0, indent = 0, ws = 0\<rparr>"

subsection \<open>Cursor\<close>

record Cursor =
  node :: nat
  pos :: int
  line :: int

definition is_visible :: "node \<Rightarrow> bool" where
  "is_visible n =
     (if symbol n = IndentationTerminal then False
      else if cls n = BOS then False
      else if cls n = EOS then False
      else if symbol n = MagicTerminal then False
      else True)"

text \<open>The \<^verbatim>\<open>while\<close> loop of \<^verbatim>\<open>find_next_visible\<close>.\<close>

fun next_visible_loop :: "nat \<Rightarrow> store \<Rightarrow> nat \<Rightarrow> nat option" where
  "next_visible_loop 0 s i = None"
| "next_visible_loop (Suc k) s i = do {
     n \<leftarrow> get_node s i;
     if is_visible n then Some i
     else if cls n = EOS then do {
       lbox \<leftarrow> get_magicterminal s n;
       case lbox of
         Some b \<Rightarrow> do { bn \<leftarrow> get_node s b; j \<leftarrow> next_term bn; next_visible_loop k s j }
       | None \<Rightarrow> Some i }
     else if symbol n = MagicTerminal then do {
       a \<leftarrow> ast n;
       r \<leftarrow> get_root s a;
       next_visible_loop k s (bos r) }
     else do { j \<leftarrow> next_term n; next_visible_loop k s j } }"

definition find_next_visible :: "nat \<Rightarrow> store \<Rightarrow> nat \<Rightarrow> nat option" where
  "find_next_visible k s i = do {
     n \<leftarrow> get_node s i;
     j \<leftarrow> (if is_visible n \<or> symbol n = MagicTerminal then next_term n else Some i);
     next_visible_loop k s j }"

text \<open>The \<^verbatim>\<open>while\<close> loop of \<^verbatim>\<open>find_previous_visible\<close>.\<close>

fun previous_visible_loop :: "nat \<Rightarrow> store \<Rightarrow> nat \<Rightarrow> nat option" where
  "previous_visible_loop 0 s i = None"
| "previous_visible_loop (Suc k) s i = do {
     n \<leftarrow> get_node s i;
     if is_visible n then Some i
     else if cls n = BOS then do {
       lbox \<leftarrow> get_magicterminal s n;
       case lbox of
         Some b \<Rightarrow> do { bn \<leftarrow> get_node s b; j \<leftarrow> prev_term bn; previous_visible_loop k s j }
       | None \<Rightarrow> Some i }
     else if symbol n = MagicTerminal then do {
       a \<leftarrow> ast n;
       r \<leftarrow> get_root s a;
       previous_visible_loop k s (eos r) }
     else do { j \<leftarrow> prev_term n; previous_visible_loop k s j } }"

definition find_previous_visible :: "nat \<Rightarrow> store \<Rightarrow> nat \<Rightarrow> nat option" where
  "find_previous_visible k s i = do {
     n \<leftarrow> get_node s i;
     j \<leftarrow> (if is_visible n then prev_term n else Some i);
     previous_visible_loop k s j }"

text \<open>
  \<^verbatim>\<open>get_nodesize_in_chars\<close> reads \<^verbatim>\<open>QApplication\<close>, a name that treemanager.py neither
  defines nor imports: the call raises \<^verbatim>\<open>NameError\<close>.
\<close>

definition get_nodesize_in_chars_w :: "node \<Rightarrow> int option" where
  "get_nodesize_in_chars_w n = None"

text \<open>The width a node adds to a column: the branch on \<^verbatim>\<open>node.image\<close> in
  \<^verbatim>\<open>get_x\<close> and \<^verbatim>\<open>move_to_x\<close>.\<close>

definition node_width :: "node \<Rightarrow> int option" where
  "node_width n =
     (if img n \<and> \<not> plain_mode n then get_nodesize_in_chars_w n else Some (len (name n)))"

text \<open>The \<^verbatim>\<open>while\<close> loop of \<^verbatim>\<open>get_x\<close>.\<close>

fun get_x_loop :: "nat \<Rightarrow> nat \<Rightarrow> store \<Rightarrow> nat \<Rightarrow> int \<Rightarrow> int option" where
  "get_x_loop 0 k s i x = None"
| "get_x_loop (Suc f) k s i x = do {
     n \<leftarrow> get_node s i;
     if name n \<noteq> [CR] \<and> cls n \<noteq> BOS then do {
       w \<leftarrow> node_width n;
       j \<leftarrow> find_previous_visible k s i;
       get_x_loop f k s j (x + w) }
     else Some x }"

definition get_x :: "nat \<Rightarrow> store \<Rightarrow> Cursor \<Rightarrow> int option" where
  "get_x k s c = do {
     n \<leftarrow> get_node s (node c);
     if name n = [CR] \<or> cls n = BOS then Some 0
     else do {
       x \<leftarrow> (if img n \<and> \<not> plain_mode n then get_nodesize_in_chars_w n else Some (pos c));
       j \<leftarrow> find_previous_visible k s (node c);
       get_x_loop k k s j x } }"

definition inside :: "store \<Rightarrow> Cursor \<Rightarrow> bool option" where
  "inside s c = do {
     n \<leftarrow> get_node s (node c);
     Some (pos c > 0 \<and> pos c < len (name n)) }"

definition isend :: "store \<Rightarrow> Cursor \<Rightarrow> bool option" where
  "isend s c = do {
     n \<leftarrow> get_node s (node c);
     Some (if symbol n = MagicTerminal then True else pos c = len (name n)) }"

text \<open>\<^verbatim>\<open>__eq__\<close>, \<^verbatim>\<open>__ne__\<close>, \<^verbatim>\<open>__gt__\<close>, \<^verbatim>\<open>__lt__\<close> between two cursors.\<close>

definition cursor_eq :: "Cursor \<Rightarrow> Cursor \<Rightarrow> bool" where
  "cursor_eq a b = (node a = node b \<and> pos a = pos b)"

definition cursor_ne :: "Cursor \<Rightarrow> Cursor \<Rightarrow> bool" where
  "cursor_ne a b = (\<not> cursor_eq a b)"

definition cursor_gt :: "nat \<Rightarrow> store \<Rightarrow> Cursor \<Rightarrow> Cursor \<Rightarrow> bool option" where
  "cursor_gt k s a b =
     (if line a > line b then Some True
      else if line a < line b then Some False
      else do {
        xa \<leftarrow> get_x k s a;
        xb \<leftarrow> get_x k s b;
        Some (if xa > xb then True else False) })"

definition cursor_lt :: "nat \<Rightarrow> store \<Rightarrow> Cursor \<Rightarrow> Cursor \<Rightarrow> bool option" where
  "cursor_lt k s a b = do {
     g \<leftarrow> cursor_gt k s a b;
     Some (\<not> (g \<or> cursor_eq a b)) }"

subsection \<open>UndoObject and UndoManager\<close>

record UndoObject =
  cmd :: string
  utext :: string     \<comment> \<open>the attribute \<^verbatim>\<open>text\<close>\<close>
  x1 :: int
  line1 :: int
  x2 :: int
  line2 :: int

text \<open>\<^verbatim>\<open>UndoObject.__init__(cmd, text, x, line)\<close>\<close>

definition mk_UndoObject :: "string \<Rightarrow> string \<Rightarrow> int \<Rightarrow> int \<Rightarrow> UndoObject" where
  "mk_UndoObject c t x l =
     \<lparr>cmd = c, utext = t, x1 = x, line1 = l, x2 = len t, line2 = l\<rparr>"

record UndoManager =
  stack :: "UndoObject list"
  upos :: int         \<comment> \<open>the attribute \<^verbatim>\<open>pos\<close>\<close>
  mode :: string

text \<open>\<^verbatim>\<open>UndoManager.__init__\<close>\<close>

definition UndoManager_init :: UndoManager where
  "UndoManager_init = \<lparr>stack = [], upos = - 1, mode = ''new''\<rparr>"

text \<open>
  Lines 245 to 260 of \<^verbatim>\<open>UndoManager.add\<close>: the mode reset and the two branches. With a
  command other than insert and delete the local \<^verbatim>\<open>x\<close> is unbound when it is read.
\<close>

definition add_entry ::
  "nat \<Rightarrow> store \<Rightarrow> string \<Rightarrow> string \<Rightarrow> Cursor \<Rightarrow> UndoManager \<Rightarrow> UndoManager option" where
  "add_entry k s c t cur um = do {
     let um1 = (if t = '' '' \<or> startswith_cr t then um\<lparr>mode := ''new''\<rparr> else um);
     if mode um1 \<noteq> c then do {
       let st = del_from (stack um1) (upos um1 + 1);
       x \<leftarrow> (if c = ''insert'' then map_option (\<lambda>g. g - len t) (get_x k s cur)
             else if c = ''delete'' then map_option (\<lambda>g. g + len t) (get_x k s cur)
             else None);
       Some (um1\<lparr>stack := st @ [mk_UndoObject c t x (line cur)],
                 upos := upos um1 + 1, mode := c\<rparr>) }
     else do {
       uo \<leftarrow> py_get (stack um1) (- 1);
       g \<leftarrow> get_x k s cur;
       st \<leftarrow> py_set (stack um1) (- 1) (uo\<lparr>utext := utext uo @ t, x2 := g, line2 := line cur\<rparr>);
       Some (um1\<lparr>stack := st\<rparr>) } }"

text \<open>Lines 261 to 263 of \<^verbatim>\<open>UndoManager.add\<close>: keep the stack small.\<close>

definition keep_small :: "UndoManager \<Rightarrow> UndoManager option" where
  "keep_small um =
     (if len (stack um) > 100 then do {
        st \<leftarrow> del_item (stack um) 0;
        Some (um\<lparr>stack := st, upos := upos um - 1\<rparr>) }
      else Some um)"

definition add ::
  "nat \<Rightarrow> store \<Rightarrow> string \<Rightarrow> string \<Rightarrow> Cursor \<Rightarrow> UndoManager \<Rightarrow> UndoManager option" where
  "add k s c t cur um = do { um1 \<leftarrow> add_entry k s c t cur um; keep_small um1 }"

definition finish :: "UndoManager \<Rightarrow> UndoManager" where
  "finish um = um\<lparr>mode := ''new''\<rparr>"

subsection \<open>TreeManager: state\<close>

text \<open>
  An element of \<^verbatim>\<open>TreeManager.parsers\<close>, a tuple (parser, lexer, language). The parser is
  known by the root it owns, \<^verbatim>\<open>parser.previous_version.parent\<close>; of the lexer the manager
  asks \<^verbatim>\<open>is_indentation_based()\<close>.
\<close>

record parser_entry =
  pv_parent :: nat
  is_indentation_based :: bool
  lang :: string

text \<open>
  The incremental lexer and parser (inclexer, incparser) are not among the source files,
  and the specification keeps them outside the core, as services that are called on a
  node and may change the shape of the chain. They are parameters of the model:
  \<^verbatim>\<open>lexer.relex(node)\<close> and \<^verbatim>\<open>parser.inc_parse()\<close> get the arena and return the arena they
  leave, or raise.
\<close>

record services =
  lexer_relex :: "parser_entry \<Rightarrow> nat \<Rightarrow> store \<Rightarrow> store option"
  parser_inc_parse :: "parser_entry \<Rightarrow> store \<Rightarrow> store option"

record TreeManager =
  lines :: "Line list"
  mainroot :: nat
  parsers :: "parser_entry list"
  edit_rightnode :: bool
  undomanager :: UndoManager
  changed :: bool
  cursor :: Cursor
  selection_start :: Cursor
  selection_end :: Cursor
  last_delchar :: string
  heap :: store

definition hasSelection :: "TreeManager \<Rightarrow> bool" where
  "hasSelection tm = cursor_ne (selection_start tm) (selection_end tm)"

text \<open>\<^verbatim>\<open>get_eos\<close>: \<^verbatim>\<open>self.parsers[0][0].previous_version.parent.children[-1]\<close>\<close>

definition get_eos :: "TreeManager \<Rightarrow> nat option" where
  "get_eos tm = do {
     p \<leftarrow> py_get (parsers tm) 0;
     r \<leftarrow> get_root (heap tm) (pv_parent p);
     Some (eos r) }"


text \<open>
  \<^verbatim>\<open>delete_parser\<close>: the \<^verbatim>\<open>for\<close> loop runs over the list it removes from, by index; after
  a removal the element that follows the removed one is skipped.
\<close>

fun delete_parser_loop :: "nat \<Rightarrow> nat \<Rightarrow> nat \<Rightarrow> parser_entry list \<Rightarrow> parser_entry list" where
  "delete_parser_loop 0 r i ps = ps"
| "delete_parser_loop (Suc f) r i ps =
     (if i < length ps
      then delete_parser_loop f r (Suc i)
             (if pv_parent (ps ! i) = r then remove1 (ps ! i) ps else ps)
      else ps)"

definition delete_parser :: "TreeManager \<Rightarrow> nat \<Rightarrow> TreeManager" where
  "delete_parser tm r = tm\<lparr>parsers := delete_parser_loop (length (parsers tm)) r 0 (parsers tm)\<rparr>"

text \<open>\<^verbatim>\<open>get_parser\<close>, \<^verbatim>\<open>get_lexer\<close>: the first entry of the root, or \<^verbatim>\<open>None\<close>.\<close>

definition get_parser :: "TreeManager \<Rightarrow> nat \<Rightarrow> parser_entry option" where
  "get_parser tm r = find (\<lambda>p. pv_parent p = r) (parsers tm)"

definition get_lexer :: "TreeManager \<Rightarrow> nat \<Rightarrow> parser_entry option" where
  "get_lexer tm r = find (\<lambda>p. pv_parent p = r) (parsers tm)"

text \<open>\<^verbatim>\<open>get_languagebox(node)\<close>\<close>

definition get_languagebox :: "TreeManager \<Rightarrow> nat \<Rightarrow> nat option option" where
  "get_languagebox tm i = do { n \<leftarrow> get_node (heap tm) i; get_magicterminal (heap tm) n }"

text \<open>\<^verbatim>\<open>relex(node)\<close> and \<^verbatim>\<open>reparse(node)\<close>: a root without an entry gives \<^verbatim>\<open>None\<close>, and the
  call on it raises.\<close>

definition relex :: "services \<Rightarrow> TreeManager \<Rightarrow> nat \<Rightarrow> TreeManager option" where
  "relex X tm i = do {
     n \<leftarrow> get_node (heap tm) i;
     e \<leftarrow> get_lexer tm (in_root n);
     s \<leftarrow> lexer_relex X e i (heap tm);
     Some (tm\<lparr>heap := s\<rparr>) }"

definition reparse :: "services \<Rightarrow> TreeManager \<Rightarrow> nat \<Rightarrow> TreeManager option" where
  "reparse X tm i = do {
     n \<leftarrow> get_node (heap tm) i;
     e \<leftarrow> get_parser tm (in_root n);
     s \<leftarrow> parser_inc_parse X e (heap tm);
     Some (tm\<lparr>heap := s\<rparr>) }"

subsection \<open>TreeManager: analysis\<close>

text \<open>The loop \<^verbatim>\<open>while isinstance(node.symbol, IndentationTerminal): node = node.next_term\<close>.\<close>

fun skip_indentation :: "nat \<Rightarrow> store \<Rightarrow> nat option \<Rightarrow> nat option" where
  "skip_indentation 0 s i = None"
| "skip_indentation (Suc f) s i = do {
     j \<leftarrow> i;
     n \<leftarrow> get_node s j;
     if symbol n = IndentationTerminal then skip_indentation f s (next_term n) else Some j }"

fun is_logical_line_loop :: "nat \<Rightarrow> store \<Rightarrow> nat option \<Rightarrow> bool option" where
  "is_logical_line_loop 0 s i = None"
| "is_logical_line_loop (Suc f) s i = do {
     j \<leftarrow> i;
     n \<leftarrow> get_node s j;
     if cls n = EOS then Some False
     else if lookup n = ''<return>'' then Some False
     else if lookup n = ''<ws>'' then is_logical_line_loop f s (next_term n)
     else if symbol n = IndentationTerminal then is_logical_line_loop f s (next_term n)
     else Some True }"

definition is_logical_line :: "nat \<Rightarrow> TreeManager \<Rightarrow> int \<Rightarrow> bool option" where
  "is_logical_line k tm y = do {
     l \<leftarrow> py_get (lines tm) y;
     n \<leftarrow> get_node (heap tm) (l_node l);
     is_logical_line_loop k (heap tm) (next_term n) }"

text \<open>\<^verbatim>\<open>is_same_language\<close> is called on two roots; a root is its own root.\<close>

definition is_same_language :: "nat \<Rightarrow> nat \<Rightarrow> bool" where
  "is_same_language r other = (r = other)"

text \<open>The root of the newline node of line \<open>y\<close>: \<^verbatim>\<open>self.lines[y].node.get_root()\<close>.\<close>

definition line_root :: "TreeManager \<Rightarrow> int \<Rightarrow> nat option" where
  "line_root tm y = do {
     l \<leftarrow> py_get (lines tm) y;
     n \<leftarrow> get_node (heap tm) (l_node l);
     Some (in_root n) }"

text \<open>\<^verbatim>\<open>get_indentation\<close>: the inner option is the Python result, \<^verbatim>\<open>None\<close> on a line that is
  not logical.\<close>

definition get_indentation :: "nat \<Rightarrow> TreeManager \<Rightarrow> int \<Rightarrow> int option option" where
  "get_indentation k tm y = do {
     lg \<leftarrow> is_logical_line k tm y;
     if \<not> lg then Some None
     else do {
       l \<leftarrow> py_get (lines tm) y;
       nl \<leftarrow> get_node (heap tm) (l_node l);
       i \<leftarrow> skip_indentation k (heap tm) (next_term nl);
       n \<leftarrow> get_node (heap tm) i;
       Some (Some (if lookup n = ''<ws>'' then len (name n) else 0)) } }"

text \<open>Python 2 orders \<^verbatim>\<open>None\<close> below every integer.\<close>

fun py2_less :: "int option \<Rightarrow> int option \<Rightarrow> bool" where
  "py2_less None None = False"
| "py2_less None (Some b) = True"
| "py2_less (Some a) None = False"
| "py2_less (Some a) (Some b) = (a < b)"

subsection \<open>TreeManager: line breaks\<close>

text \<open>The step of the walk of \<^verbatim>\<open>rescan_linebreaks\<close>, lines 921 to 929: into a language
  box at its boundary node, out of it at its EOS, along the chain otherwise. At an EOS
  without language box the current node stays.\<close>

definition walk_step :: "store \<Rightarrow> nat \<Rightarrow> node \<Rightarrow> nat option option" where
  "walk_step s c n =
     (if symbol n = MagicTerminal then do {
        a \<leftarrow> ast n;
        r \<leftarrow> get_root s a;
        Some (Some (bos r)) }
      else if cls n = EOS then do {
        lbox \<leftarrow> get_magicterminal s n;
        case lbox of
          Some b \<Rightarrow> do { bn \<leftarrow> get_node s b; Some (next_term bn) }
        | None \<Rightarrow> Some (Some c) }
      else Some (next_term n))"

text \<open>The \<^verbatim>\<open>while\<close> loop of \<^verbatim>\<open>rescan_linebreaks\<close>; the state of the loop is the current
  node, \<open>y\<close> and the lines.\<close>

fun rescan_linebreaks_loop ::
  "nat \<Rightarrow> store \<Rightarrow> nat \<Rightarrow> nat option \<Rightarrow> int \<Rightarrow> Line list \<Rightarrow> Line list option" where
  "rescan_linebreaks_loop 0 s nxt cur y ls = None"
| "rescan_linebreaks_loop (Suc f) s nxt cur y ls =
     (if cur = Some nxt then Some ls
      else do {
        c \<leftarrow> cur;
        n \<leftarrow> get_node s c;
        let y' = (if name n = [CR] then y + 1 else y);
        let ls' = (if name n = [CR] then py_insert ls (y + 1) (mk_Line c) else ls);
        nx \<leftarrow> walk_step s c n;
        rescan_linebreaks_loop f s nxt nx y' ls' })"

definition rescan_linebreaks :: "nat \<Rightarrow> TreeManager \<Rightarrow> int \<Rightarrow> TreeManager option" where
  "rescan_linebreaks k tm y = do {
     l \<leftarrow> py_get (lines tm) y;
     nxt \<leftarrow> (case py_get (lines tm) (y + 1) of
              Some l' \<Rightarrow> Some (l_node l')
            | None \<Rightarrow> get_eos tm);
     n \<leftarrow> get_node (heap tm) (l_node l);
     ls \<leftarrow> rescan_linebreaks_loop k (heap tm) nxt (next_term n) y (lines tm);
     Some (tm\<lparr>lines := ls\<rparr>) }"

text \<open>\<^verbatim>\<open>delete_linebreak(y, node)\<close>, with its assertion.\<close>

definition delete_linebreak :: "TreeManager \<Rightarrow> int \<Rightarrow> nat \<Rightarrow> TreeManager option" where
  "delete_linebreak tm y i = do {
     current \<leftarrow> py_get (lines tm) y;
     deleted_line \<leftarrow> py_get (lines tm) (y + 1);
     if l_node deleted_line \<noteq> i then None
     else do {
       ls \<leftarrow> del_item (lines tm) (y + 1);
       Some (tm\<lparr>lines := ls\<rparr>) } }"

subsection \<open>TreeManager: indentation\<close>

text \<open>\<^verbatim>\<open>self.lines[y].indent = v\<close> and \<^verbatim>\<open>self.lines[y].ws = v\<close>\<close>

definition set_indent :: "TreeManager \<Rightarrow> int \<Rightarrow> int \<Rightarrow> TreeManager option" where
  "set_indent tm y v = do {
     l \<leftarrow> py_get (lines tm) y;
     ls \<leftarrow> py_set (lines tm) y (l\<lparr>indent := v\<rparr>);
     Some (tm\<lparr>lines := ls\<rparr>) }"

definition set_ws :: "TreeManager \<Rightarrow> int \<Rightarrow> int \<Rightarrow> TreeManager option" where
  "set_ws tm y v = do {
     l \<leftarrow> py_get (lines tm) y;
     ls \<leftarrow> py_set (lines tm) y (l\<lparr>ws := v\<rparr>);
     Some (tm\<lparr>lines := ls\<rparr>) }"

text \<open>\<^verbatim>\<open>remove_indentation_nodes(node)\<close>; a removed node keeps its own \<^verbatim>\<open>next_term\<close>.\<close>

fun remove_indentation_loop :: "nat \<Rightarrow> store \<Rightarrow> nat option \<Rightarrow> store option" where
  "remove_indentation_loop 0 s i = None"
| "remove_indentation_loop (Suc f) s i = do {
     j \<leftarrow> i;
     n \<leftarrow> get_node s j;
     if symbol n = IndentationTerminal then do {
       s' \<leftarrow> remove_child s j;
       n' \<leftarrow> get_node s' j;
       remove_indentation_loop f s' (next_term n') }
     else Some s }"

definition remove_indentation_nodes :: "nat \<Rightarrow> store \<Rightarrow> nat option \<Rightarrow> store option" where
  "remove_indentation_nodes k s i =
     (case i of None \<Rightarrow> Some s | Some j \<Rightarrow> remove_indentation_loop k s (Some j))"

text \<open>\<^verbatim>\<open>find_indentation(y)\<close>: \<open>dy\<close> runs from \<open>y - 1\<close> down to 0.\<close>

fun find_indentation_loop ::
  "nat \<Rightarrow> TreeManager \<Rightarrow> int option \<Rightarrow> nat \<Rightarrow> int option option" where
  "find_indentation_loop k tm tw 0 = Some None"
| "find_indentation_loop k tm tw (Suc dy) = do {
     pw \<leftarrow> get_indentation k tm (int dy);
     if pw = None then find_indentation_loop k tm tw dy
     else if pw = tw then do { l \<leftarrow> py_get (lines tm) (int dy); Some (Some (indent l)) }
     else if py2_less pw tw then Some None
     else find_indentation_loop k tm tw dy }"

definition find_indentation :: "nat \<Rightarrow> TreeManager \<Rightarrow> int \<Rightarrow> int option option" where
  "find_indentation k tm y = do {
     tw \<leftarrow> get_indentation k tm y;
     find_indentation_loop k tm tw (nat y) }"

text \<open>\<^verbatim>\<open>update_indentation_backwards(y)\<close>: \<open>dy\<close> runs from \<open>y - 1\<close> down to 0.\<close>

fun update_indentation_backwards_loop ::
  "nat \<Rightarrow> TreeManager \<Rightarrow> int \<Rightarrow> nat \<Rightarrow> int option \<Rightarrow> bool \<Rightarrow> nat \<Rightarrow> TreeManager option" where
  "update_indentation_backwards_loop k tm y r w found_smaller 0 = Some tm"
| "update_indentation_backwards_loop k tm y r w found_smaller (Suc dy) = do {
     lg \<leftarrow> is_logical_line k tm (int dy);
     if \<not> lg then update_indentation_backwards_loop k tm y r w found_smaller dy
     else do {
       other_root \<leftarrow> line_root tm (int dy);
       if \<not> is_same_language r other_root
       then update_indentation_backwards_loop k tm y r w found_smaller dy
       else do {
         prev_ws \<leftarrow> get_indentation k tm (int dy);
         if py2_less w prev_ws then update_indentation_backwards_loop k tm y r w True dy
         else if w = prev_ws then do {
           l \<leftarrow> py_get (lines tm) (int dy);
           set_indent tm y (indent l) }
         else if py2_less prev_ws w then
           (if \<not> found_smaller then do {
              l \<leftarrow> py_get (lines tm) (int dy);
              set_indent tm y (indent l + 1) }
            else Some tm)
         else update_indentation_backwards_loop k tm y r w found_smaller dy } } }"

definition update_indentation_backwards :: "nat \<Rightarrow> TreeManager \<Rightarrow> int \<Rightarrow> TreeManager option" where
  "update_indentation_backwards k tm y = do {
     r \<leftarrow> line_root tm y;
     w \<leftarrow> get_indentation k tm y;
     update_indentation_backwards_loop k tm y r w False (nat y) }"

text \<open>
  \<^verbatim>\<open>indentation_nodes_changed(y, nodes)\<close>. The new nodes are given by the names of their
  indentation terminals. Symbol equality of grammar_parser.gparser is not among the source
  files: two indentation terminals are taken as equal when their names are.
\<close>

fun collect_indentation :: "nat \<Rightarrow> store \<Rightarrow> nat option \<Rightarrow> string list option" where
  "collect_indentation 0 s i = None"
| "collect_indentation (Suc f) s i = do {
     j \<leftarrow> i;
     n \<leftarrow> get_node s j;
     if symbol n = IndentationTerminal
     then map_option ((#) (name n)) (collect_indentation f s (next_term n))
     else Some [] }"

definition indentation_nodes_changed ::
  "nat \<Rightarrow> TreeManager \<Rightarrow> int \<Rightarrow> string list \<Rightarrow> bool option" where
  "indentation_nodes_changed k tm y new_nodes = do {
     l \<leftarrow> py_get (lines tm) y;
     nl \<leftarrow> get_node (heap tm) (l_node l);
     previous_nodes \<leftarrow> collect_indentation k (heap tm) (next_term nl);
     Some (rev previous_nodes = new_nodes) }"

text \<open>\<^verbatim>\<open>for node in nodes: anchor.insert_after(node)\<close>, each node a fresh
  \<^verbatim>\<open>TextNode(IndentationTerminal(name))\<close>.\<close>

fun insert_markers :: "store \<Rightarrow> nat \<Rightarrow> string list \<Rightarrow> store option" where
  "insert_markers s anchor [] = Some s"
| "insert_markers s anchor (t # ts) = do {
     let (i, s1) = alloc s (new_node IndentationTerminal t);
     s2 \<leftarrow> insert_after s1 anchor i;
     insert_markers s2 anchor ts }"

text \<open>Lines 1035 to 1040 of \<^verbatim>\<open>repair_indentation\<close>: the search for the line to compare with.\<close>

fun previous_logical_line :: "nat \<Rightarrow> nat \<Rightarrow> TreeManager \<Rightarrow> nat \<Rightarrow> int \<Rightarrow> int option" where
  "previous_logical_line 0 k tm r dy = None"
| "previous_logical_line (Suc f) k tm r dy = do {
     other \<leftarrow> line_root tm dy;
     lg \<leftarrow> is_logical_line k tm dy;
     if \<not> lg \<or> \<not> is_same_language r other then previous_logical_line f k tm r (dy - 1)
     else Some dy }"

text \<open>
  Lines 1024 to 1060 of \<^verbatim>\<open>repair_indentation\<close>: the indent level of line \<open>y\<close> and the list
  \<^verbatim>\<open>new_indent_nodes\<close>, in the order in which the nodes are appended to it.
\<close>

definition new_indent_nodes :: "nat \<Rightarrow> TreeManager \<Rightarrow> int \<Rightarrow> (TreeManager \<times> string list) option" where
  "new_indent_nodes k tm y =
     (if y = 0 then do { tm1 \<leftarrow> set_indent tm y 0; Some (tm1, []) }
      else do {
        lg \<leftarrow> is_logical_line k tm y;
        if \<not> lg then Some (tm, [])
        else do {
          this_whitespace \<leftarrow> get_indentation k tm y;
          w \<leftarrow> this_whitespace;
          tm1 \<leftarrow> set_ws tm y w;
          r \<leftarrow> line_root tm1 y;
          dy \<leftarrow> previous_logical_line k k tm1 r (y - 1);
          prev_whitespace \<leftarrow> get_indentation k tm1 dy;
          if prev_whitespace = this_whitespace then do {
            ld \<leftarrow> py_get (lines tm1) dy;
            tm2 \<leftarrow> set_indent tm1 y (indent ld);
            Some (tm2, [''NEWLINE'']) }
          else if py2_less prev_whitespace this_whitespace then do {
            ld \<leftarrow> py_get (lines tm1) dy;
            tm2 \<leftarrow> set_indent tm1 y (indent ld + 1);
            Some (tm2, [''INDENT'', ''NEWLINE'']) }
          else if py2_less this_whitespace prev_whitespace then do {
            this_indent \<leftarrow> find_indentation k tm1 y;
            case this_indent of
              None \<Rightarrow> Some (tm1, [''UNBALANCED''])
            | Some v \<Rightarrow> do {
                tm2 \<leftarrow> set_indent tm1 y v;
                ld \<leftarrow> py_get (lines tm2) dy;
                Some (tm2, replicate (nat (indent ld - v)) ''DEDENT'' @ [''NEWLINE'']) } }
          else Some (tm1, []) } })"

text \<open>Lines 1073 to 1089 of \<^verbatim>\<open>repair_indentation\<close>: the dedents of the last line.\<close>

fun remove_indentation_backwards :: "nat \<Rightarrow> store \<Rightarrow> nat option \<Rightarrow> (nat \<times> store) option" where
  "remove_indentation_backwards 0 s i = None"
| "remove_indentation_backwards (Suc f) s i = do {
     j \<leftarrow> i;
     n \<leftarrow> get_node s j;
     if symbol n = IndentationTerminal then do {
       s' \<leftarrow> remove_child s j;
       n' \<leftarrow> get_node s' j;
       remove_indentation_backwards f s' (prev_term n') }
     else Some (j, s) }"

fun last_logical_line :: "nat \<Rightarrow> TreeManager \<Rightarrow> nat \<Rightarrow> nat option" where
  "last_logical_line k tm 0 = do { lg \<leftarrow> is_logical_line k tm 0; Some 0 }"
| "last_logical_line k tm (Suc y) = do {
     lg \<leftarrow> is_logical_line k tm (int (Suc y));
     if \<not> lg then last_logical_line k tm y else Some (Suc y) }"

definition last_line_dedent :: "nat \<Rightarrow> TreeManager \<Rightarrow> int \<Rightarrow> nat \<Rightarrow> TreeManager option" where
  "last_line_dedent k tm y newline = do {
     nl \<leftarrow> get_node (heap tm) newline;
     r \<leftarrow> get_root (heap tm) (in_root nl);
     e \<leftarrow> get_node (heap tm) (eos r);
     (i, s) \<leftarrow> remove_indentation_backwards k (heap tm) (prev_term e);
     y' \<leftarrow> last_logical_line k (tm\<lparr>heap := s\<rparr>) (nat y);
     l \<leftarrow> py_get (lines tm) (int y');
     s' \<leftarrow> insert_markers s i (replicate (nat (indent l)) ''DEDENT'' @ [''NEWLINE'']);
     Some (tm\<lparr>heap := s'\<rparr>) }"

text \<open>Lines 1024 to 1070 of \<^verbatim>\<open>repair_indentation\<close>: the new level and the new indentation
  nodes of the line; unless they are the old ones, the old indentation nodes behind the
  newline node are removed and the new ones are inserted, each right behind the newline
  node.\<close>

definition repair_markers :: "nat \<Rightarrow> TreeManager \<Rightarrow> int \<Rightarrow> nat \<Rightarrow> TreeManager option" where
  "repair_markers k tm y newline = do {
     (tm1, new_nodes) \<leftarrow> new_indent_nodes k tm y;
     as_before \<leftarrow> indentation_nodes_changed k tm1 y new_nodes;
     if \<not> as_before then do {
       nl1 \<leftarrow> get_node (heap tm1) newline;
       s \<leftarrow> remove_indentation_nodes k (heap tm1) (next_term nl1);
       s' \<leftarrow> insert_markers s newline new_nodes;
       Some (tm1\<lparr>heap := s'\<rparr>) }
     else Some tm1 }"

definition repair_indentation :: "nat \<Rightarrow> TreeManager \<Rightarrow> int \<Rightarrow> TreeManager option" where
  "repair_indentation k tm y = do {
     l \<leftarrow> py_get (lines tm) y;
     let newline = l_node l;
     nl \<leftarrow> get_node (heap tm) newline;
     lexer \<leftarrow> get_lexer tm (in_root nl);
     if \<not> is_indentation_based lexer then Some tm
     else do {
       tm2 \<leftarrow> repair_markers k tm y newline;
       if y = len (lines tm2) - 1 then last_line_dedent k tm2 y newline else Some tm2 } }"


text \<open>\<^verbatim>\<open>rescan_indentations(y)\<close>: the skip to the next logical line, then the \<^verbatim>\<open>for\<close> loop.\<close>

fun next_logical_line :: "nat \<Rightarrow> nat \<Rightarrow> TreeManager \<Rightarrow> int \<Rightarrow> int option option" where
  "next_logical_line 0 k tm y = None"
| "next_logical_line (Suc f) k tm y = do {
     lg \<leftarrow> is_logical_line k tm y;
     if \<not> lg then (if y + 1 \<ge> len (lines tm) then Some None
                   else next_logical_line f k tm (y + 1))
     else Some (Some y) }"

fun rescan_indentations_for ::
  "nat \<Rightarrow> TreeManager \<Rightarrow> int \<Rightarrow> int option \<Rightarrow> int \<Rightarrow> int list \<Rightarrow> TreeManager option" where
  "rescan_indentations_for k tm threshold current_ws current_indent [] = Some tm"
| "rescan_indentations_for k tm threshold current_ws current_indent (i # is) = do {
     w \<leftarrow> get_indentation k tm i;
     if w = None then rescan_indentations_for k tm threshold current_ws current_indent is
     else do {
       tm1 \<leftarrow> (if py2_less current_ws w then set_indent tm i (current_indent + 1) else Some tm);
       tm2 \<leftarrow> (if w = current_ws then set_indent tm1 i current_indent else Some tm1);
       tm3 \<leftarrow> (if py2_less w current_ws then update_indentation_backwards k tm2 i else Some tm2);
       tm4 \<leftarrow> repair_indentation k tm3 i;
       l \<leftarrow> py_get (lines tm4) i;
       if ws l \<le> threshold then Some tm4
       else rescan_indentations_for k tm4 threshold w (indent l) is } }"

definition rescan_indentations :: "nat \<Rightarrow> TreeManager \<Rightarrow> int \<Rightarrow> TreeManager option" where
  "rescan_indentations k tm y0 = do {
     lg \<leftarrow> is_logical_line k tm y0;
     r \<leftarrow> (if \<not> lg then do {
             l \<leftarrow> py_get (lines tm) y0;
             n \<leftarrow> get_node (heap tm) (l_node l);
             s \<leftarrow> remove_indentation_nodes k (heap tm) (next_term n);
             let tm1 = tm\<lparr>heap := s\<rparr>;
             if y0 + 1 < len (lines tm1) then do {
               y \<leftarrow> next_logical_line k k tm1 (y0 + 1);
               Some (tm1, y) }
             else Some (tm1, Some (len (lines tm1) - 1)) }
           else Some (tm, Some y0));
     case r of
       (tm1, None) \<Rightarrow> Some tm1
     | (tm1, Some y) \<Rightarrow> do {
         l0 \<leftarrow> py_get (lines tm1) y;
         let ws_before = ws l0;
         tm2 \<leftarrow> update_indentation_backwards k tm1 y;
         tm3 \<leftarrow> repair_indentation k tm2 y;
         l1 \<leftarrow> py_get (lines tm3) y;
         let ws_after = ws l1;
         let search_threshold = min ws_before ws_after;
         let current_indent = indent l1;
         current_ws \<leftarrow> get_indentation k tm3 y;
         rescan_indentations_for k tm3 search_threshold current_ws current_indent
           [y + 1 ..  len (lines tm3) - 1] } }"

text \<open>\<^verbatim>\<open>post_keypress(text)\<close>\<close>

fun rescan_indentations_range :: "nat \<Rightarrow> TreeManager \<Rightarrow> int list \<Rightarrow> TreeManager option" where
  "rescan_indentations_range k tm [] = Some tm"
| "rescan_indentations_range k tm (i # is) = do {
     tm1 \<leftarrow> rescan_indentations k tm (line (cursor tm) + i);
     rescan_indentations_range k tm1 is }"

definition post_keypress :: "nat \<Rightarrow> TreeManager \<Rightarrow> string \<Rightarrow> TreeManager option" where
  "post_keypress k tm t = do {
     let lines_before = len (lines tm);
     tm1 \<leftarrow> rescan_linebreaks k tm (line (cursor tm));
     let new_lines = len (lines tm1) - lines_before;
     tm2 \<leftarrow> rescan_indentations_range k tm1 [0 .. new_lines];
     Some (if t \<noteq> [] \<and> hd t = CR then tm2\<lparr>cursor := (cursor tm2)\<lparr>line := line (cursor tm2) + 1\<rparr>\<rparr>
           else tm2) }"

subsection \<open>Cursor: movement\<close>

text \<open>\<^verbatim>\<open>Cursor.left\<close>\<close>

definition left :: "nat \<Rightarrow> store \<Rightarrow> Cursor \<Rightarrow> Cursor option" where
  "left k s c = do {
     n0 \<leftarrow> get_node s (node c);
     i \<leftarrow> (if \<not> is_visible n0 then find_previous_visible k s (node c) else Some (node c));
     n \<leftarrow> get_node s i;
     if name n = [CR] then Some c
     else if cls n = BOS then Some c
     else do {
       let c1 = (if i \<noteq> node c then c\<lparr>node := i, pos := len (name n)\<rparr> else c);
       if pos c1 > 1 \<and> (\<not> img n \<or> plain_mode n) then Some (c1\<lparr>pos := pos c1 - 1\<rparr>)
       else do {
         j \<leftarrow> find_previous_visible k s i;
         m \<leftarrow> get_node s j;
         Some (c1\<lparr>node := j, pos := len (name m)\<rparr>) } } }"

text \<open>\<^verbatim>\<open>Cursor.fix\<close>: its two loops.\<close>

fun fix_deleted :: "nat \<Rightarrow> nat \<Rightarrow> store \<Rightarrow> Cursor \<Rightarrow> Cursor option" where
  "fix_deleted 0 k s c = None"
| "fix_deleted (Suc f) k s c = do {
     n \<leftarrow> get_node s (node c);
     if deleted n then do { c' \<leftarrow> left k s (c\<lparr>pos := 0\<rparr>); fix_deleted f k s c' }
     else Some c }"

fun fix_overflow :: "nat \<Rightarrow> store \<Rightarrow> Cursor \<Rightarrow> Cursor option" where
  "fix_overflow 0 s c = None"
| "fix_overflow (Suc f) s c = do {
     n \<leftarrow> get_node s (node c);
     if pos c > len (name n) then do {
       j \<leftarrow> next_term n;
       fix_overflow f s (c\<lparr>pos := pos c - len (name n), node := j\<rparr>) }
     else Some c }"

definition cursor_fix :: "nat \<Rightarrow> store \<Rightarrow> Cursor \<Rightarrow> Cursor option" where
  "cursor_fix k s c = do { c1 \<leftarrow> fix_deleted k k s c; fix_overflow k s c1 }"

text \<open>\<^verbatim>\<open>Cursor.move_to_x(x, lines)\<close>\<close>

fun move_to_x_loop :: "nat \<Rightarrow> nat \<Rightarrow> store \<Rightarrow> Cursor \<Rightarrow> nat \<Rightarrow> int \<Rightarrow> Cursor option" where
  "move_to_x_loop 0 k s c i x = None"
| "move_to_x_loop (Suc f) k s c i x =
     (if x > 0 then do {
        newnode \<leftarrow> find_next_visible k s i;
        if newnode = i then do {
          n \<leftarrow> get_node s i;
          Some (c\<lparr>node := i, pos := len (name n)\<rparr>) }
        else do {
          n \<leftarrow> get_node s newnode;
          w \<leftarrow> node_width n;
          if name n = [CR] \<or> cls n = EOS then do {
            p \<leftarrow> find_previous_visible k s newnode;
            pn \<leftarrow> get_node s p;
            Some (c\<lparr>node := p, pos := len (name pn)\<rparr>) }
          else move_to_x_loop f k s c newnode (x - w) } }
      else do {
        n \<leftarrow> get_node s i;
        Some (c\<lparr>pos := len (name n) + x, node := i\<rparr>) })"

definition move_to_x :: "nat \<Rightarrow> store \<Rightarrow> Cursor \<Rightarrow> int \<Rightarrow> Line list \<Rightarrow> Cursor option" where
  "move_to_x k s c x ls = do {
     l \<leftarrow> py_get ls (line c);
     move_to_x_loop k k s c (l_node l) x }"

subsection \<open>TreeManager: selection\<close>

text \<open>
  The \<^verbatim>\<open>while\<close> loop of \<^verbatim>\<open>get_nodes_from_selection\<close>. \<^verbatim>\<open>next_terminal()\<close> of
  incparser.astree is not among the source files; modelled from the spec as the next node
  of the chain.
\<close>

fun selection_loop :: "nat \<Rightarrow> store \<Rightarrow> nat \<Rightarrow> nat option \<Rightarrow> nat list option" where
  "selection_loop 0 s e i = None"
| "selection_loop (Suc f) s e i =
     (if i = Some e then Some []
      else do {
        j \<leftarrow> i;
        n \<leftarrow> get_node s j;
        if symbol n = MagicTerminal then do {
          a \<leftarrow> ast n;
          r \<leftarrow> get_root s a;
          selection_loop f s e (Some (bos r)) }
        else do {
          lbox \<leftarrow> (if cls n = EOS then get_magicterminal s n else Some None);
          case lbox of
            Some b \<Rightarrow> do { bn \<leftarrow> get_node s b; selection_loop f s e (next_term bn) }
          | None \<Rightarrow> map_option ((#) j) (selection_loop f s e (next_term n)) } })"

text \<open>\<^verbatim>\<open>min\<close> and \<^verbatim>\<open>max\<close> of Python 2 on two cursors: the second argument is chosen when it
  is less (greater) than the first.\<close>

definition cur_start :: "nat \<Rightarrow> TreeManager \<Rightarrow> Cursor option" where
  "cur_start k tm = do {
     l \<leftarrow> cursor_lt k (heap tm) (selection_end tm) (selection_start tm);
     Some (if l then selection_end tm else selection_start tm) }"

definition cur_end :: "nat \<Rightarrow> TreeManager \<Rightarrow> Cursor option" where
  "cur_end k tm = do {
     g \<leftarrow> cursor_gt k (heap tm) (selection_end tm) (selection_start tm);
     Some (if g then selection_end tm else selection_start tm) }"

text \<open>\<^verbatim>\<open>get_nodes_from_selection\<close>: the inner option is the Python result, \<^verbatim>\<open>None\<close> when
  the two cursors are equal.\<close>

definition get_nodes_from_selection ::
  "nat \<Rightarrow> TreeManager \<Rightarrow> (nat list \<times> int \<times> int) option option" where
  "get_nodes_from_selection k tm = do {
     cs \<leftarrow> cur_start k tm;
     ce \<leftarrow> cur_end k tm;
     if cursor_eq cs ce then Some None
     else do {
       si \<leftarrow> inside (heap tm) cs;
       let diff_start = (if si then pos cs else 0);
       en \<leftarrow> get_node (heap tm) (node ce);
       ei \<leftarrow> inside (heap tm) ce;
       let diff_end = (if ei then pos ce else len (name en));
       if node cs = node ce then Some (Some ([node cs], diff_start, diff_end))
       else do {
         sn \<leftarrow> get_node (heap tm) (node cs);
         if cls sn = EOS then Some (Some ([], 0, 0))
         else do {
           ns \<leftarrow> selection_loop k (heap tm) (node ce) (next_term sn);
           Some (Some ((if si then [node cs] else []) @ ns @ [node ce],
                       diff_start, diff_end)) } } } }"

text \<open>\<^verbatim>\<open>delete_if_empty(node)\<close>\<close>

definition delete_if_empty :: "store \<Rightarrow> nat \<Rightarrow> store option" where
  "delete_if_empty s i = do {
     n \<leftarrow> get_node s i;
     if name n = [] then remove_child s i else Some s }"

fun remove_children :: "store \<Rightarrow> nat list \<Rightarrow> store option" where
  "remove_children s [] = Some s"
| "remove_children s (i # is) = do { s' \<leftarrow> remove_child s i; remove_children s' is }"

definition set_name :: "store \<Rightarrow> nat \<Rightarrow> string \<Rightarrow> store option" where
  "set_name s i t = do { n \<leftarrow> get_node s i; Some (set_node s i (n\<lparr>name := t\<rparr>)) }"

text \<open>\<^verbatim>\<open>s[:i]\<close> and \<^verbatim>\<open>s[i:]\<close>\<close>

definition py_take :: "int \<Rightarrow> 'a list \<Rightarrow> 'a list" where
  "py_take i xs = take (slice_index i (length xs)) xs"

definition py_drop :: "int \<Rightarrow> 'a list \<Rightarrow> 'a list" where
  "py_drop i xs = drop (slice_index i (length xs)) xs"

definition deleteSelection :: "nat \<Rightarrow> services \<Rightarrow> TreeManager \<Rightarrow> TreeManager option" where
  "deleteSelection k X tm = do {
     r \<leftarrow> get_nodes_from_selection k tm;
     (ns, diff_start, diff_end) \<leftarrow> r;
     first \<leftarrow> py_get ns 0;
     fn \<leftarrow> get_node (heap tm) first;
     let repair_node = prev_term fn;
     s1 \<leftarrow> (if length ns = 1 then do {
              s' \<leftarrow> set_name (heap tm) first (py_take diff_start (name fn) @ py_drop diff_end (name fn));
              delete_if_empty s' first }
            else do {
              s' \<leftarrow> set_name (heap tm) first (py_take diff_start (name fn));
              lst \<leftarrow> py_get ns (- 1);
              ln \<leftarrow> get_node s' lst;
              s'' \<leftarrow> set_name s' lst (py_drop diff_end (name ln));
              s''' \<leftarrow> delete_if_empty s'' first;
              delete_if_empty s''' lst });
     s2 \<leftarrow> remove_children s1 (butlast (drop 1 ns));
     rn \<leftarrow> repair_node;
     rnn \<leftarrow> get_node s2 rn;
     rep \<leftarrow> next_term rnn;
     tm1 \<leftarrow> relex X (tm\<lparr>heap := s2\<rparr>) rep;
     cs \<leftarrow> cur_start k tm1;
     ce \<leftarrow> cur_end k tm1;
     Some (tm1\<lparr>cursor := cs, selection_start := cs, selection_end := cs,
               lines := del_slice (lines tm1) (line cs + 1) (line ce + 1),
               changed := True\<rparr>) }"

subsection \<open>TreeManager: keys\<close>

text \<open>\<^verbatim>\<open>leave_languagebox\<close>\<close>

definition leave_languagebox :: "TreeManager \<Rightarrow> TreeManager option" where
  "leave_languagebox tm = do {
     n \<leftarrow> get_node (heap tm) (node (cursor tm));
     nx \<leftarrow> next_term n;
     nxn \<leftarrow> get_node (heap tm) nx;
     e \<leftarrow> isend (heap tm) (cursor tm);
     if symbol nxn = MagicTerminal \<and> e then do {
       a \<leftarrow> ast nxn;
       r \<leftarrow> get_root (heap tm) a;
       Some (tm\<lparr>cursor := (cursor tm)\<lparr>node := bos r, pos := 0\<rparr>\<rparr>) }
     else do {
       lbox \<leftarrow> get_languagebox tm (node (cursor tm));
       case lbox of
         Some b \<Rightarrow> Some (tm\<lparr>cursor := (cursor tm)\<lparr>node := b, pos := 0\<rparr>\<rparr>)
       | None \<Rightarrow> Some tm } }"

text \<open>The end of \<^verbatim>\<open>key_delete\<close>, lines 669 to 673.\<close>

definition key_delete_end ::
  "nat \<Rightarrow> services \<Rightarrow> bool \<Rightarrow> TreeManager \<Rightarrow> nat \<Rightarrow> TreeManager option" where
  "key_delete_end k X undo_mode tm repairnode = do {
     tm1 \<leftarrow> post_keypress k tm [];
     tm2 \<leftarrow> reparse X tm1 repairnode;
     tm3 \<leftarrow> (if undo_mode then do {
               um \<leftarrow> add k (heap tm2) ''delete'' (last_delchar tm2) (cursor tm2) (undomanager tm2);
               Some (tm2\<lparr>undomanager := um\<rparr>) }
             else Some tm2);
     Some (tm3\<lparr>changed := True\<rparr>) }"

text \<open>
  Lines 643 to 664 of \<^verbatim>\<open>key_delete\<close>: the character is removed from the node to the right
  of the cursor, then an emptied node, or the emptied language box with its parser, is
  removed. The result is the manager and \<^verbatim>\<open>repairnode\<close>. \<^verbatim>\<open>next_terminal()\<close> and
  \<^verbatim>\<open>previous_terminal()\<close> of incparser.astree are not among the source files; modelled from
  the spec as the neighbours in the chain.
\<close>

definition delete_between :: "nat \<Rightarrow> TreeManager \<Rightarrow> nat \<Rightarrow> (TreeManager \<times> nat) option" where
  "delete_between k tm i = do {
     (ch, s) \<leftarrow> node_backspace (heap tm) i 0;
     let tm1 = tm\<lparr>last_delchar := ch, heap := s\<rparr>;
     n \<leftarrow> get_node s i;
     if name n = [] \<and> cls n \<noteq> BOS then do {
       rp \<leftarrow> find_previous_visible k s i;
       magic \<leftarrow> get_magicterminal s n;
       let next_is_eos = (case next_term n of None \<Rightarrow> False
             | Some j \<Rightarrow> (case get_node s j of None \<Rightarrow> False | Some m \<Rightarrow> cls m = EOS));
       let previous_is_bos = (case prev_term n of None \<Rightarrow> False
             | Some j \<Rightarrow> (case get_node s j of None \<Rightarrow> False | Some m \<Rightarrow> cls m = BOS));
       if magic \<noteq> None \<and> next_is_eos \<and> previous_is_bos then do {
         b \<leftarrow> magic;
         previous_node \<leftarrow> prev_term n;
         c \<leftarrow> find_previous_visible k s previous_node;
         cn \<leftarrow> get_node s c;
         s' \<leftarrow> remove_child s b;
         Some (delete_parser (tm1\<lparr>cursor := (cursor tm1)\<lparr>node := c, pos := len (name cn)\<rparr>,
                                   heap := s'\<rparr>) (in_root n), c) }
       else do {
         s' \<leftarrow> remove_child s i;
         Some (tm1\<lparr>heap := s'\<rparr>, rp) } }
     else Some (tm1, i) }"

text \<open>Lines 666 and 667 of \<^verbatim>\<open>key_delete\<close>: the relex of \<^verbatim>\<open>repairnode\<close>, which is never
  \<^verbatim>\<open>None\<close>.\<close>

definition relex_repairnode :: "services \<Rightarrow> TreeManager \<Rightarrow> nat \<Rightarrow> TreeManager option" where
  "relex_repairnode X tm repairnode = do {
     rn \<leftarrow> get_node (heap tm) repairnode;
     if cls rn \<noteq> BOS then relex X tm repairnode else Some tm }"

text \<open>\<^verbatim>\<open>key_delete(undo_mode)\<close>. The call of itself at line 636 passes no argument, so that
  call runs with \<^verbatim>\<open>undo_mode = True\<close>.\<close>

fun key_delete_rec :: "nat \<Rightarrow> nat \<Rightarrow> services \<Rightarrow> bool \<Rightarrow> TreeManager \<Rightarrow> TreeManager option" where
  "key_delete_rec 0 k X undo_mode tm = None"
| "key_delete_rec (Suc f) k X undo_mode tm =
     (if hasSelection tm then deleteSelection k X tm
      else do {
        ins \<leftarrow> inside (heap tm) (cursor tm);
        if ins then do {
          (ch, s) \<leftarrow> node_backspace (heap tm) (node (cursor tm)) (pos (cursor tm));
          tm1 \<leftarrow> relex X (tm\<lparr>last_delchar := ch, heap := s\<rparr>) (node (cursor tm));
          key_delete_end k X undo_mode tm1 (node (cursor tm)) }
        else do {
          v \<leftarrow> find_next_visible k (heap tm) (node (cursor tm));
          vn \<leftarrow> get_node (heap tm) v;
          lbox \<leftarrow> (if cls vn = EOS then get_languagebox tm v else Some None);
          if cls vn = EOS \<and> lbox = None then Some tm
          else do {
            i0 \<leftarrow> (case lbox of
                     Some b \<Rightarrow> do { bn \<leftarrow> get_node (heap tm) b; Some (next_term bn) }
                   | None \<Rightarrow> Some (Some v));
            i \<leftarrow> skip_indentation k (heap tm) i0;
            n \<leftarrow> get_node (heap tm) i;
            if symbol n = MagicTerminal then do {
              tm1 \<leftarrow> leave_languagebox tm;
              key_delete_rec f k X True tm1 }
            else if img n \<and> \<not> plain_mode n then Some tm
            else do {
              tm1 \<leftarrow> (if name n = [CR] then do {
                        s \<leftarrow> remove_indentation_nodes k (heap tm) (next_term n);
                        delete_linebreak (tm\<lparr>heap := s\<rparr>) (line (cursor tm)) i }
                      else Some tm);
              (tm2, repairnode) \<leftarrow> delete_between k tm1 i;
              tm3 \<leftarrow> relex_repairnode X tm2 repairnode;
              key_delete_end k X undo_mode tm3 repairnode } } } })"

definition key_delete :: "nat \<Rightarrow> services \<Rightarrow> bool \<Rightarrow> TreeManager \<Rightarrow> TreeManager option" where
  "key_delete k X undo_mode tm = key_delete_rec k k X undo_mode tm"

text \<open>\<^verbatim>\<open>key_backspace(undo_mode)\<close>\<close>

definition key_backspace :: "nat \<Rightarrow> services \<Rightarrow> bool \<Rightarrow> TreeManager \<Rightarrow> TreeManager option" where
  "key_backspace k X undo_mode tm = do {
     r \<leftarrow> get_root (heap tm) (mainroot tm);
     if node (cursor tm) = bos r then Some tm
     else do {
       n \<leftarrow> get_node (heap tm) (node (cursor tm));
       if img n \<and> \<not> plain_mode n then Some tm
       else do {
         c \<leftarrow> (if name n = [CR] then do {
                 p \<leftarrow> find_previous_visible k (heap tm) (node (cursor tm));
                 pn \<leftarrow> get_node (heap tm) p;
                 Some ((cursor tm)\<lparr>node := p, line := line (cursor tm) - 1, pos := len (name pn)\<rparr>) }
               else left k (heap tm) (cursor tm));
         key_delete k X undo_mode (tm\<lparr>cursor := c\<rparr>) } } }"

text \<open>\<^verbatim>\<open>key_normal(text, undo_mode)\<close>; the returned indentation is not part of the result.\<close>

definition key_normal :: "nat \<Rightarrow> services \<Rightarrow> string \<Rightarrow> bool \<Rightarrow> TreeManager \<Rightarrow> TreeManager option" where
  "key_normal k X text0 undo_mode tm0 = do {
     tm \<leftarrow> (if hasSelection tm0 then deleteSelection k X tm0 else Some tm0);
     t \<leftarrow> (if text0 = [CR] then do {
             ind \<leftarrow> get_indentation k tm (line (cursor tm));
             Some (text0 @ replicate (nat (case ind of None \<Rightarrow> 0 | Some v \<Rightarrow> v)) CHR '' '') }
           else Some text0);
     n0 \<leftarrow> get_node (heap tm) (node (cursor tm));
     tma \<leftarrow> (if img n0 \<and> \<not> plain_mode n0 then leave_languagebox tm else Some tm);
     let i0 = node (cursor tma);
     n \<leftarrow> get_node (heap tma) i0;
     ins \<leftarrow> inside (heap tma) (cursor tma);
     (tmb, i) \<leftarrow>
       (if ins then do {
          s \<leftarrow> node_insert (heap tma) i0 t (pos (cursor tma));
          Some (tma\<lparr>heap := s\<rparr>, i0) }
        else do {
          (tmc, j, p) \<leftarrow>
            (if startswith_cr t then do {
               let (new, s1) = alloc (heap tma) (new_node Terminal []);
               s2 \<leftarrow> insert_after s1 i0 new;
               Some (tma\<lparr>heap := s2, cursor := (cursor tma)\<lparr>pos := 0\<rparr>\<rparr>, new, 0) }
             else if cls n = BOS \<or> name n = [CR] \<or> symbol n = MagicTerminal then do {
               old \<leftarrow> (case next_term n of
                        None \<Rightarrow> Some i0
                      | Some nx \<Rightarrow> do {
                          sk \<leftarrow> skip_indentation k (heap tma) (Some nx);
                          skn \<leftarrow> get_node (heap tma) sk;
                          prev_term skn });
               let (new, s1) = alloc (heap tma) (new_node Terminal []);
               s2 \<leftarrow> insert_after s1 old new;
               Some (tma\<lparr>heap := s2, cursor := (cursor tma)\<lparr>pos := 0\<rparr>\<rparr>, new, 0) }
             else Some (tma, i0, pos (cursor tma)));
          s3 \<leftarrow> node_insert (heap tmc) j t p;
          Some (tmc\<lparr>heap := s3, cursor := (cursor tmc)\<lparr>node := j\<rparr>\<rparr>, j) });
     let tm1 = tmb\<lparr>cursor := (cursor tmb)\<lparr>pos := pos (cursor tmb) + len t\<rparr>\<rparr>;
     tm2 \<leftarrow> relex X tm1 i;
     c \<leftarrow> cursor_fix k (heap tm2) (cursor tm2);
     tm3 \<leftarrow> post_keypress k (tm2\<lparr>cursor := c\<rparr>) t;
     tm4 \<leftarrow> reparse X tm3 i;
     tm5 \<leftarrow> (if undo_mode then do {
               um \<leftarrow> add k (heap tm4) ''insert'' t (cursor tm4) (undomanager tm4);
               Some (tm4\<lparr>undomanager := um\<rparr>) }
             else Some tm4);
     Some (tm5\<lparr>changed := True\<rparr>) }"

subsection \<open>UndoManager: undo and redo\<close>

text \<open>\<^verbatim>\<open>undo_insert(tm, text)\<close>: one \<^verbatim>\<open>key_backspace(False)\<close> for each character.\<close>

fun undo_insert :: "nat \<Rightarrow> services \<Rightarrow> TreeManager \<Rightarrow> string \<Rightarrow> TreeManager option" where
  "undo_insert k X tm [] = Some tm"
| "undo_insert k X tm (c # cs) = do {
     tm1 \<leftarrow> key_backspace k X False tm;
     undo_insert k X tm1 cs }"

text \<open>\<^verbatim>\<open>for c in text: tm.key_normal(c, False)\<close>\<close>

fun type_chars :: "nat \<Rightarrow> services \<Rightarrow> TreeManager \<Rightarrow> string \<Rightarrow> TreeManager option" where
  "type_chars k X tm [] = Some tm"
| "type_chars k X tm (c # cs) = do {
     tm1 \<leftarrow> key_normal k X [c] False tm;
     type_chars k X tm1 cs }"

text \<open>\<^verbatim>\<open>undo_delete(tm, text)\<close> types \<^verbatim>\<open>text[::-1]\<close>.\<close>

definition undo_delete :: "nat \<Rightarrow> services \<Rightarrow> TreeManager \<Rightarrow> string \<Rightarrow> TreeManager option" where
  "undo_delete k X tm t = type_chars k X tm (rev t)"

text \<open>\<^verbatim>\<open>UndoManager.undo(tm)\<close>; the manager is \<open>undomanager tm\<close>. A command without an
  \<^verbatim>\<open>undo_\<close> method raises \<^verbatim>\<open>AttributeError\<close>.\<close>

definition undo :: "nat \<Rightarrow> services \<Rightarrow> TreeManager \<Rightarrow> TreeManager option" where
  "undo k X tm =
     (let um = undomanager tm in
      if len (stack um) > 0 \<and> upos um > - 1 then do {
        uo \<leftarrow> py_get (stack um) (upos um);
        if cmd uo \<noteq> ''insert'' \<and> cmd uo \<noteq> ''delete'' then None
        else do {
          c \<leftarrow> move_to_x k (heap tm) ((cursor tm)\<lparr>line := line2 uo\<rparr>) (x2 uo) (lines tm);
          tm1 \<leftarrow> (if cmd uo = ''insert'' then undo_insert k X (tm\<lparr>cursor := c\<rparr>) (utext uo)
                  else undo_delete k X (tm\<lparr>cursor := c\<rparr>) (utext uo));
          Some (tm1\<lparr>undomanager := (undomanager tm1)\<lparr>upos := upos (undomanager tm1) - 1,
                                                       mode := ''new''\<rparr>\<rparr>) } }
      else Some (tm\<lparr>undomanager := um\<lparr>mode := ''new''\<rparr>\<rparr>))"

text \<open>\<^verbatim>\<open>UndoManager.redo(tm)\<close> with \<^verbatim>\<open>redo_insert\<close> and \<^verbatim>\<open>redo_delete\<close>.\<close>

definition redo :: "nat \<Rightarrow> services \<Rightarrow> TreeManager \<Rightarrow> TreeManager option" where
  "redo k X tm =
     (let um = undomanager tm in
      if len (stack um) > 0 \<and> upos um + 1 < len (stack um) then do {
        let tm0 = tm\<lparr>undomanager := um\<lparr>upos := upos um + 1\<rparr>\<rparr>;
        uo \<leftarrow> py_get (stack um) (upos um + 1);
        if cmd uo \<noteq> ''insert'' \<and> cmd uo \<noteq> ''delete'' then None
        else do {
          c \<leftarrow> move_to_x k (heap tm0) ((cursor tm0)\<lparr>line := line1 uo\<rparr>) (x1 uo) (lines tm0);
          if cmd uo = ''insert'' then type_chars k X (tm0\<lparr>cursor := c\<rparr>) (utext uo)
          else undo_insert k X (tm0\<lparr>cursor := c\<rparr>) (utext uo) } }
      else Some tm)"

text \<open>\<^verbatim>\<open>key_ctrl_z\<close> and \<^verbatim>\<open>key_shift_ctrl_z\<close>\<close>

definition key_ctrl_z :: "nat \<Rightarrow> services \<Rightarrow> TreeManager \<Rightarrow> TreeManager option" where
  "key_ctrl_z k X tm = do { tm1 \<leftarrow> undo k X tm; Some (tm1\<lparr>changed := True\<rparr>) }"

definition key_shift_ctrl_z :: "nat \<Rightarrow> services \<Rightarrow> TreeManager \<Rightarrow> TreeManager option" where
  "key_shift_ctrl_z k X tm = do { tm1 \<leftarrow> redo k X tm; Some (tm1\<lparr>changed := True\<rparr>) }"

subsection \<open>TreeManager: parsers\<close>

text \<open>
  \<^verbatim>\<open>TreeManager.__init__\<close>. The attributes \<^verbatim>\<open>cursor\<close>, \<^verbatim>\<open>selection_start\<close> and
  \<^verbatim>\<open>selection_end\<close> are bound by the first \<^verbatim>\<open>add_parser\<close>, and \<^verbatim>\<open>mainroot\<close> is \<^verbatim>\<open>None\<close>
  until then; the record holds placeholders for them.
\<close>

definition TreeManager_init :: "store \<Rightarrow> TreeManager" where
  "TreeManager_init s =
     \<lparr>lines = [], mainroot = 0, parsers = [], edit_rightnode = False,
      undomanager = UndoManager_init, changed = False,
      cursor = \<lparr>node = 0, pos = 0, line = 0\<rparr>,
      selection_start = \<lparr>node = 0, pos = 0, line = 0\<rparr>,
      selection_end = \<lparr>node = 0, pos = 0, line = 0\<rparr>,
      last_delchar = [], heap = s\<rparr>"

text \<open>\<^verbatim>\<open>add_parser(parser, lexer, language)\<close>; the root of the parser is in the arena.\<close>

definition add_parser :: "services \<Rightarrow> TreeManager \<Rightarrow> parser_entry \<Rightarrow> TreeManager option" where
  "add_parser X tm p = do {
     let tm1 = tm\<lparr>parsers := parsers tm @ [p]\<rparr>;
     s \<leftarrow> parser_inc_parse X p (heap tm1);
     let tm2 = tm1\<lparr>heap := s\<rparr>;
     if length (parsers tm2) = 1 then do {
       r \<leftarrow> get_root s (pv_parent p);
       let c = \<lparr>node = bos r, pos = 0, line = 0\<rparr>;
       Some (tm2\<lparr>lines := lines tm2 @ [mk_Line (bos r)], mainroot := pv_parent p,
                 cursor := c, selection_start := c, selection_end := c\<rparr>) }
     else Some tm2 }"

subsection \<open>Observations of a document\<close>








text \<open>
  A language box that holds one character. The boundary node \<open>m\<close> stands between the
  nodes \<open>p\<close> and \<open>q\<close> of the enclosing chain and owns the root \<open>r\<close>, whose chain is the BOS
  \<open>b\<close>, the ordinary text node \<open>c\<close> with the one character \<open>ch\<close>, and the EOS \<open>e\<close>. The box
  is entered through the boundary node only: no other node has \<open>m\<close> as its next node, no
  node outside the box is followed by a node of the box, no other boundary node owns a
  root that begins in the box, and no language box hangs on a node of the box.
\<close>

definition one_char_box ::
  "store \<Rightarrow> nat \<Rightarrow> nat \<Rightarrow> nat \<Rightarrow> nat \<Rightarrow> nat \<Rightarrow> nat \<Rightarrow> nat \<Rightarrow> char \<Rightarrow> bool" where
  "one_char_box s m r b c e p q ch =
     (distinct [p, m, q, b, c, e] \<and>
      (case get_node s m of None \<Rightarrow> False
       | Some n \<Rightarrow> symbol n = MagicTerminal \<and> cls n = TextNode \<and> ast n = Some r \<and>
           prev_term n = Some p \<and> next_term n = Some q) \<and>
      (case get_root s r of None \<Rightarrow> False
       | Some rt \<Rightarrow> bos rt = b \<and> eos rt = e \<and> magic_backpointer rt = Some m) \<and>
      (case get_node s b of None \<Rightarrow> False
       | Some n \<Rightarrow> cls n = BOS \<and> symbol n = Terminal \<and> next_term n = Some c \<and> in_root n = r) \<and>
      (case get_node s c of None \<Rightarrow> False
       | Some n \<Rightarrow> cls n = TextNode \<and> symbol n = Terminal \<and> name n = [ch] \<and> \<not> img n \<and>
           prev_term n = Some b \<and> next_term n = Some e \<and> in_root n = r) \<and>
      (case get_node s e of None \<Rightarrow> False
       | Some n \<Rightarrow> cls n = EOS \<and> symbol n = Terminal \<and> in_root n = r) \<and>
      (case get_node s p of None \<Rightarrow> False | Some n \<Rightarrow> next_term n = Some m) \<and>
      (case get_node s q of None \<Rightarrow> False | Some n \<Rightarrow> prev_term n = Some m) \<and>
      (\<forall>i \<in> set [0 ..< length (nodes s)].
         (next_term (nodes s ! i) = Some m \<longrightarrow> i = p) \<and>
         (i \<notin> {b, c, e} \<longrightarrow> next_term (nodes s ! i) \<notin> {Some b, Some c, Some e}) \<and>
         (i \<noteq> m \<longrightarrow> symbol (nodes s ! i) = MagicTerminal \<longrightarrow>
            (case ast (nodes s ! i) of None \<Rightarrow> True
             | Some a \<Rightarrow> (case get_root s a of None \<Rightarrow> True
                 | Some rt \<Rightarrow> bos rt \<notin> {m, b, c, e})))) \<and>
      (\<forall>rt \<in> set (roots s). magic_backpointer rt \<notin> {Some b, Some c, Some e}))"

text \<open>Two managers that differ in their Line records and their nodes at most: the repair
  of lines and indentation changes nothing else.\<close>

definition same_but_lines_heap :: "TreeManager \<Rightarrow> TreeManager \<Rightarrow> bool" where
  "same_but_lines_heap tm tm' = (tm' = tm\<lparr>lines := lines tm', heap := heap tm'\<rparr>)"

text \<open>
  The nodes of the document without the language box: the node \<open>c\<close> has lost its
  character, the boundary node \<open>m\<close> is marked deleted, and its neighbours \<open>p\<close> and \<open>q\<close> are
  linked to each other. The nodes of the box keep their own links.
\<close>

definition without_box :: "store \<Rightarrow> nat \<Rightarrow> nat \<Rightarrow> nat \<Rightarrow> nat \<Rightarrow> store" where
  "without_box s m c p q =
     s\<lparr>nodes := (nodes s)
         [c := (nodes s ! c)\<lparr>name := []\<rparr>,
          m := (nodes s ! m)\<lparr>deleted := True\<rparr>,
          p := (nodes s ! p)\<lparr>next_term := Some q\<rparr>,
          q := (nodes s ! q)\<lparr>prev_term := Some p\<rparr>]\<rparr>"


subsection \<open>The spec's words for the undo log\<close>

text \<open>
  What the specification says of \<^verbatim>\<open>UndoManager.add\<close>, to be compared with \<open>add\<close>: an
  edit is interrupted by a pure space or by a text that starts with a line break; it
  coalesces into the top-of-stack entry, or a new entry is created and the redo tail is
  deleted; the stack is bounded.
\<close>

definition interrupts :: "string \<Rightarrow> bool" where
  "interrupts t = (t = '' '' \<or> (t \<noteq> [] \<and> hd t = CR))"

definition coalesce :: "UndoManager \<Rightarrow> string \<Rightarrow> int \<Rightarrow> int \<Rightarrow> UndoManager" where
  "coalesce um t x l =
     um\<lparr>stack := butlast (stack um) @
        [(last (stack um))\<lparr>utext := utext (last (stack um)) @ t, x2 := x, line2 := l\<rparr>]\<rparr>"

definition new_entry :: "UndoManager \<Rightarrow> UndoObject \<Rightarrow> UndoManager" where
  "new_entry um e =
     um\<lparr>stack := take (nat (upos um + 1)) (stack um) @ [e], upos := upos um + 1,
        mode := cmd e\<rparr>"

definition bounded :: "UndoManager \<Rightarrow> UndoManager" where
  "bounded um =
     (if length (stack um) > 100 then um\<lparr>stack := tl (stack um), upos := upos um - 1\<rparr>
      else um)"

text \<open>
  The invariant of the undo log: it holds of \<open>UndoManager_init\<close> and every operation of
  the manager keeps it.
\<close>

definition um_inv :: "UndoManager \<Rightarrow> bool" where
  "um_inv um =
     (length (stack um) \<le> 100 \<and> - 1 \<le> upos um \<and> upos um < len (stack um) \<and>
      (mode um \<noteq> ''new'' \<longrightarrow> upos um = len (stack um) - 1 \<and> stack um \<noteq> []))"

subsection \<open>Example documents\<close>

definition sentinel :: "node_class \<Rightarrow> nat option \<Rightarrow> nat option \<Rightarrow> nat \<Rightarrow> node" where
  "sentinel c p n r =
     (new_node Terminal [])\<lparr>cls := c, prev_term := p, next_term := n, in_root := r\<rparr>"

definition text_node :: "string \<Rightarrow> nat option \<Rightarrow> nat option \<Rightarrow> nat \<Rightarrow> node" where
  "text_node t p n r = (new_node Terminal t)\<lparr>prev_term := p, next_term := n, in_root := r\<rparr>"

text \<open>One root whose chain is BOS, one text node, EOS.\<close>

definition doc_one :: "string \<Rightarrow> store" where
  "doc_one t =
     \<lparr>nodes = [sentinel BOS None (Some 1) 0, text_node t (Some 0) (Some 2) 0,
               sentinel EOS (Some 1) None 0],
      roots = [\<lparr>bos = 0, eos = 2, magic_backpointer = None\<rparr>]\<rparr>"

definition um_one :: UndoManager where
  "um_one = \<lparr>stack = [mk_UndoObject ''insert'' ''a'' 0 0], upos = 0, mode = ''insert''\<rparr>"

definition um_full :: UndoManager where
  "um_full = \<lparr>stack = replicate 100 (mk_UndoObject ''insert'' ''a'' 0 0), upos = 99,
              mode = ''new''\<rparr>"

text \<open>Services that leave the arena as it is: every touched node is one token already.\<close>

definition idle :: services where
  "idle = \<lparr>lexer_relex = (\<lambda>e i s. Some s), parser_inc_parse = (\<lambda>e s. Some s)\<rparr>"

text \<open>The empty document: one root whose chain is BOS, EOS.\<close>

definition doc_empty :: store where
  "doc_empty =
     \<lparr>nodes = [sentinel BOS None (Some 1) 0, sentinel EOS (Some 0) None 0],
      roots = [\<lparr>bos = 0, eos = 1, magic_backpointer = None\<rparr>]\<rparr>"

definition plain_parser :: parser_entry where
  "plain_parser = \<lparr>pv_parent = 0, is_indentation_based = False, lang = ''plain''\<rparr>"

text \<open>The manager of the empty document after \<^verbatim>\<open>add_parser\<close> of its only parser.\<close>

definition tm_start :: TreeManager where
  "tm_start = (TreeManager_init doc_empty)\<lparr>lines := [mk_Line 0], parsers := [plain_parser]\<rparr>"

text \<open>The keys a, b, c typed into the empty document.\<close>

definition typed_abc :: "TreeManager option" where
  "typed_abc = do {
     tm0 \<leftarrow> add_parser idle (TreeManager_init doc_empty) plain_parser;
     tm1 \<leftarrow> key_normal 4 idle ''a'' True tm0;
     tm2 \<leftarrow> key_normal 4 idle ''b'' True tm1;
     key_normal 4 idle ''c'' True tm2 }"

text \<open>What is looked at in a manager: the texts of the nodes of the arena, the cursor, and
  the number of Line records.\<close>

definition summary :: "TreeManager \<Rightarrow> string list \<times> Cursor \<times> nat" where
  "summary tm = (map name (nodes (heap tm)), cursor tm, length (lines tm))"












section \<open>Properties\<close>

subsection \<open>Python lists\<close>

lemma py_get_last: "xs \<noteq> [] \<Longrightarrow> py_get xs (- 1) = Some (last xs)"
  by (cases xs rule: rev_cases) (auto simp: py_get_def item_index_def)

lemma py_get_last_Nil: "py_get [] (- 1) = None"
  by (simp add: py_get_def item_index_def)

lemma py_set_last: "xs \<noteq> [] \<Longrightarrow> py_set xs (- 1) v = Some (butlast xs @ [v])"
  by (cases xs rule: rev_cases) (auto simp: py_set_def item_index_def)

lemma del_item_0: "xs \<noteq> [] \<Longrightarrow> del_item xs 0 = Some (tl xs)"
  by (cases xs) (auto simp: del_item_def item_index_def)

lemma del_from_nonneg: "0 \<le> i \<Longrightarrow> del_from xs i = take (nat i) xs"
  by (simp add: del_from_def slice_index_def min_def)

lemma startswith_cr_iff: "startswith_cr t = (t \<noteq> [] \<and> hd t = CR)"
  by (cases t) auto

subsection \<open>Cursor: visibility\<close>

lemma next_visible_loop_result:
  "next_visible_loop k s i = Some j \<Longrightarrow>
     \<exists>m. get_node s j = Some m \<and>
       (is_visible m \<or> cls m = EOS \<and> get_magicterminal s m = Some None)"
  by (induction k arbitrary: i) (auto split: bind_splits if_splits option.splits)

lemma previous_visible_loop_result:
  "previous_visible_loop k s i = Some j \<Longrightarrow>
     \<exists>m. get_node s j = Some m \<and>
       (is_visible m \<or> cls m = BOS \<and> get_magicterminal s m = Some None)"
  by (induction k arbitrary: i) (auto split: bind_splits if_splits option.splits)

lemma is_visible_iff: "is_visible n \<longleftrightarrow> symbol n = Terminal \<and> cls n = TextNode"
  by (cases "symbol n"; cases "cls n") (auto simp: is_visible_def)

text \<open>
  C8, as the code has it: \<^verbatim>\<open>is_visible\<close> looks at the kind of a node only, never at the
  length of its text. It is false exactly on the BOS and EOS sentinels and on nodes
  whose symbol is a MagicTerminal or an IndentationTerminal. When
  \<^verbatim>\<open>find_next_visible\<close> returns, the result is a visible node or the EOS sentinel of a
  root that no language box encloses; when \<^verbatim>\<open>find_previous_visible\<close> returns, it is a
  visible node or the BOS sentinel of such a root.
\<close>

theorem visible_by_kind_only:
  "(is_visible n \<longleftrightarrow> symbol n = Terminal \<and> cls n = TextNode) \<and>
   (find_next_visible k s i = Some j \<longrightarrow>
      (\<exists>m. get_node s j = Some m \<and>
           (is_visible m \<or> cls m = EOS \<and> get_magicterminal s m = Some None))) \<and>
   (find_previous_visible k s i' = Some j' \<longrightarrow>
      (\<exists>m. get_node s j' = Some m \<and>
           (is_visible m \<or> cls m = BOS \<and> get_magicterminal s m = Some None)))"
  using next_visible_loop_result [of k s _ j] previous_visible_loop_result [of k s _ j']
  by (auto simp: is_visible_iff find_next_visible_def find_previous_visible_def
      split: bind_splits)

theorem visible_by_kind_only_witness:
  "find_next_visible 2 (doc_one []) 0 = Some 1 \<and>
   find_previous_visible 2 (doc_one []) 2 = Some 1 \<and>
   get_node (doc_one []) 1 = Some (text_node [] (Some 0) (Some 2) 0) \<and>
   is_visible (text_node [] (Some 0) (Some 2) 0)"
proof -
  have n: "find_next_visible 2 (doc_one []) 0 = Some 1" by code_simp
  have p: "find_previous_visible 2 (doc_one []) 2 = Some 1" by code_simp
  have g: "get_node (doc_one []) 1 = Some (text_node [] (Some 0) (Some 2) 0)" by code_simp
  have c: "cls (text_node [] (Some 0) (Some 2) 0) = TextNode" by code_simp
  have y: "symbol (text_node [] (Some 0) (Some 2) 0) = Terminal" by code_simp
  show ?thesis
    using visible_by_kind_only [of "text_node [] (Some 0) (Some 2) 0" 2 "doc_one []" 0 1 2 1]
      n p g c y
    by simp
qed

text \<open>
  C8 as stated fails: in the chain BOS, an ordinary text node with the empty text, EOS,
  the empty node is visible, and both searches return it.
\<close>

theorem empty_node_visible:
  "name (text_node [] (Some 0) (Some 2) 0) = [] \<and>
   is_visible (text_node [] (Some 0) (Some 2) 0) \<and>
   get_node (doc_one []) 1 = Some (text_node [] (Some 0) (Some 2) 0) \<and>
   find_next_visible 2 (doc_one []) 0 = Some 1 \<and>
   find_previous_visible 2 (doc_one []) 2 = Some 1"
  by code_simp

subsection \<open>Cursor: order and equality\<close>

lemma get_x_doc_one: "get_x 2 (doc_one ''ab'') \<lparr>node = 1, pos = 2, line = l\<rparr> = Some 2"
  by code_simp

text \<open>
  C9, as the code has it. When the columns of both cursors can be computed:
  \<^verbatim>\<open>a > b\<close> holds exactly when (line, column) of \<open>a\<close> is lexicographically greater,
  the line first; \<^verbatim>\<open>a == b\<close> holds exactly when node and offset agree; at least one of
  \<^verbatim>\<open>a < b\<close>, \<^verbatim>\<open>a == b\<close>, \<^verbatim>\<open>a > b\<close> holds and \<^verbatim>\<open>a < b\<close> excludes the other two;
  \<^verbatim>\<open>a == b\<close> and \<^verbatim>\<open>a > b\<close> hold together exactly when the cursors have the same node
  and offset and the line of \<open>a\<close> is the greater.
\<close>

theorem cursor_order:
  assumes "get_x k s a = Some xa" and "get_x k s b = Some xb"
  shows "cursor_gt k s a b = Some (line a > line b \<or> line a = line b \<and> xa > xb) \<and>
    (cursor_eq a b \<longleftrightarrow> node a = node b \<and> pos a = pos b) \<and>
    (\<exists>g l. cursor_gt k s a b = Some g \<and> cursor_lt k s a b = Some l \<and>
       (l \<or> cursor_eq a b \<or> g) \<and> \<not> (l \<and> cursor_eq a b) \<and> \<not> (l \<and> g) \<and>
       (cursor_eq a b \<and> g \<longleftrightarrow> node a = node b \<and> pos a = pos b \<and> line a > line b))"
proof -
  have "node a = node b \<Longrightarrow> pos a = pos b \<Longrightarrow> xa = xb"
    using assms by (auto simp: get_x_def split: bind_splits if_splits)
  then show ?thesis using assms
    by (auto simp: cursor_gt_def cursor_lt_def cursor_eq_def)
qed

theorem cursor_order_witness:
  "get_x 2 (doc_one ''ab'') \<lparr>node = 1, pos = 2, line = 1\<rparr> = Some 2 \<and>
   get_x 2 (doc_one ''ab'') \<lparr>node = 1, pos = 2, line = 0\<rparr> = Some 2 \<and>
   cursor_gt 2 (doc_one ''ab'') \<lparr>node = 1, pos = 2, line = 1\<rparr>
     \<lparr>node = 1, pos = 2, line = 0\<rparr> = Some True"
  using cursor_order [OF get_x_doc_one [of 1] get_x_doc_one [of 0]] get_x_doc_one by simp

text \<open>
  C9 as stated fails: two cursors on the same node at the same offset whose line numbers
  differ are equal, and one is greater than the other.
\<close>

theorem eq_and_gt_together:
  "cursor_eq \<lparr>node = 1, pos = 2, line = 1\<rparr> \<lparr>node = 1, pos = 2, line = 0\<rparr> \<and>
   cursor_gt 2 (doc_one ''ab'') \<lparr>node = 1, pos = 2, line = 1\<rparr>
     \<lparr>node = 1, pos = 2, line = 0\<rparr> = Some True \<and>
   cursor_lt 2 (doc_one ''ab'') \<lparr>node = 1, pos = 2, line = 1\<rparr>
     \<lparr>node = 1, pos = 2, line = 0\<rparr> = Some False"
  by (simp add: cursor_eq_def cursor_gt_def cursor_lt_def)

subsection \<open>The undo log\<close>

lemma add_entry_coalesce:
  assumes "mode um = c" "\<not> interrupts t" "stack um \<noteq> []" "get_x k s cur = Some g"
  shows "add_entry k s c t cur um = Some (coalesce um t g (line cur))"
  using assms
  by (auto simp add: add_entry_def interrupts_def startswith_cr_iff py_get_last py_set_last
      coalesce_def)

lemma add_entry_new:
  assumes "mode um \<noteq> c \<or> interrupts t" "c = ''insert'' \<or> c = ''delete''" "- 1 \<le> upos um"
    "get_x k s cur = Some g"
  shows "add_entry k s c t cur um =
     Some (new_entry um
       (mk_UndoObject c t (if c = ''insert'' then g - len t else g + len t) (line cur)))"
  using assms
  by (auto simp: add_entry_def interrupts_def startswith_cr_iff new_entry_def del_from_nonneg
      mk_UndoObject_def)

lemma keep_small_id: "length (stack um) \<le> 100 \<Longrightarrow> keep_small um = Some um"
  by (simp add: keep_small_def)

lemma keep_small_drop:
  "length (stack um) > 100 \<Longrightarrow>
     keep_small um = Some (um\<lparr>stack := tl (stack um), upos := upos um - 1\<rparr>)"
  by (cases "stack um") (auto simp add: keep_small_def del_item_0)

lemma keep_small_bounded: "keep_small um = Some (bounded um)"
  by (simp add: bounded_def keep_small_id keep_small_drop)

lemma add_entry_length:
  assumes "add_entry k s c t cur um = Some um1"
  shows "length (stack um1) \<le> Suc (length (stack um))"
  using assms
  by (auto simp: add_entry_def Let_def del_from_def py_set_def py_get_def
      split: if_splits option.splits bind_splits)

lemma um_inv_init: "um_inv UndoManager_init"
  by (simp add: um_inv_def UndoManager_init_def)

lemma um_inv_finish: "um_inv um \<Longrightarrow> um_inv (finish um)"
  by (simp add: um_inv_def finish_def)

lemma add_entry_inv:
  assumes "um_inv um" "add_entry k s c t cur um = Some um1"
  shows "stack um1 \<noteq> [] \<and> length (stack um1) \<le> 101 \<and> - 1 \<le> upos um1
     \<and> upos um1 < len (stack um1)
     \<and> (mode um1 \<noteq> ''new'' \<longrightarrow> upos um1 = len (stack um1) - 1)
     \<and> (length (stack um1) = 101 \<longrightarrow> upos um1 = 100)"
proof -
  let ?m = "if t = '' '' \<or> startswith_cr t then ''new'' else mode um"
  have inv: "length (stack um) \<le> 100" "- 1 \<le> upos um" "upos um < len (stack um)"
    "mode um \<noteq> ''new'' \<Longrightarrow> upos um = len (stack um) - 1 \<and> stack um \<noteq> []"
    using assms(1) by (auto simp: um_inv_def)
  show ?thesis
  proof (cases "?m \<noteq> c")
    case True
    then obtain e where "stack um1 = take (nat (upos um + 1)) (stack um) @ [e]"
      "upos um1 = upos um + 1" "mode um1 = c"
      using assms(2) inv(2)
      by (auto simp: add_entry_def Let_def del_from_nonneg split: if_splits bind_splits)
    then show ?thesis using inv(1,2,3) by (auto simp: min_def)
  next
    case False
    then obtain st where st: "py_set (stack um) (- 1) st \<noteq> None" "stack um \<noteq> []"
        and um1: "stack um1 = butlast (stack um) @ [st]" "upos um1 = upos um" "mode um1 = ?m"
      using assms(2)
      by (cases "stack um = []")
         (auto simp: add_entry_def Let_def py_get_last py_get_last_Nil py_set_last
           split: if_splits bind_splits)
    have "mode um1 \<noteq> ''new'' \<Longrightarrow> mode um \<noteq> ''new''" using um1(3) by (auto split: if_splits)
    then show ?thesis using inv um1 st(2) by auto
  qed
qed

lemma um_inv_add:
  assumes "um_inv um" "add k s c t cur um = Some um'"
  shows "um_inv um'"
proof -
  from assms(2) obtain um1 where e: "add_entry k s c t cur um = Some um1"
    and u: "um' = bounded um1"
    by (auto simp: add_def keep_small_bounded split: bind_splits)
  from add_entry_inv [OF assms(1) e] show ?thesis
    unfolding u um_inv_def bounded_def by (cases "stack um1") auto
qed

text \<open>
  C6: for a command that is insert or delete, in a state of the undo log that satisfies
  its invariant, and with a cursor whose column can be computed, \<^verbatim>\<open>add\<close> coalesces the
  edit into the top-of-stack entry (the text is appended, the end coordinates become the
  cursor's) if and only if the command equals the current mode and the text is neither a
  single space nor starts with a line break; otherwise a new entry is created after the
  current stack position and every entry behind that position is deleted.
\<close>

theorem add_coalesces_iff:
  assumes "c = ''insert'' \<or> c = ''delete''" and "um_inv um" and "get_x k s cur = Some g"
  shows "add k s c t cur um =
     (if c = mode um \<and> \<not> interrupts t
      then Some (coalesce um t g (line cur))
      else Some (bounded (new_entry um
             (mk_UndoObject c t (if c = ''insert'' then g - len t else g + len t)
                (line cur)))))"
proof (cases "c = mode um \<and> \<not> interrupts t")
  case True
  with assms have ne: "stack um \<noteq> []" by (auto simp: um_inv_def)
  have "length (stack (coalesce um t g (line cur))) \<le> 100"
    using assms(2) ne by (simp add: coalesce_def um_inv_def)
  then show ?thesis
    using True ne assms(3) by (simp add: add_def add_entry_coalesce keep_small_id)
next
  case False
  then have "mode um \<noteq> c \<or> interrupts t" by auto
  moreover have "- 1 \<le> upos um" using assms(2) by (simp add: um_inv_def)
  ultimately show ?thesis
    using assms(1,3)
    by (simp only: if_not_P [OF False] add_def add_entry_new keep_small_bounded bind.simps)
qed

theorem add_coalesces_iff_witness:
  "um_inv um_one \<and>
   add 2 (doc_one ''ab'') ''insert'' ''b'' \<lparr>node = 1, pos = 2, line = 0\<rparr> um_one =
     Some \<lparr>stack = [\<lparr>cmd = ''insert'', utext = ''ab'', x1 = 0, line1 = 0, x2 = 2, line2 = 0\<rparr>],
           upos = 0, mode = ''insert''\<rparr>"
proof -
  have i: "um_inv um_one" by (simp add: um_inv_def um_one_def)
  have n: "\<not> interrupts ''b''" by (simp add: interrupts_def CR_def)
  show ?thesis
    using add_coalesces_iff [OF _ i get_x_doc_one [of 0], of "''insert''" "''b''"] i n
    by (simp add: um_one_def coalesce_def mk_UndoObject_def)
qed

text \<open>
  C5: if the undo stack holds at most 100 entries before a call to \<^verbatim>\<open>add\<close>, it holds at
  most 100 entries after it. When the branch of \<^verbatim>\<open>add\<close> has left more than 100 entries,
  the front entry, which is the oldest entry of the stack before the call, is removed and
  the stack position is decremented; the result of the call is then the same whatever that
  front entry was, so nothing of it is left to restore.
\<close>

theorem add_keeps_stack_bounded:
  assumes "length (stack um) \<le> 100" and "add k s c t cur um = Some um'"
  shows "length (stack um') \<le> 100 \<and>
    (\<exists>um1. add_entry k s c t cur um = Some um1 \<and>
      (if length (stack um1) > 100
       then stack um' = tl (stack um1) \<and> upos um' = upos um1 - 1 \<and>
            stack um \<noteq> [] \<and> hd (stack um1) = hd (stack um) \<and>
            (\<forall>e. add k s c t cur (um\<lparr>stack := e # tl (stack um)\<rparr>) = Some um')
       else um' = um1))"
proof -
  from assms(2) obtain um1 where e: "add_entry k s c t cur um = Some um1"
    and k: "keep_small um1 = Some um'"
    by (auto simp: add_def split: bind_splits)
  have l: "length (stack um1) \<le> 101"
    using add_entry_length [OF e] assms(1) by simp
  show ?thesis
  proof (cases "length (stack um1) > 100")
    case False
    then show ?thesis using e k by (simp add: keep_small_id)
  next
    case True
    with l have l101: "length (stack um1) = 101" by simp
    have um': "um' = um1\<lparr>stack := tl (stack um1), upos := upos um1 - 1\<rparr>"
      using k True by (simp add: keep_small_drop)
    let ?m = "if t = '' '' \<or> startswith_cr t then ''new'' else mode um"
    have br: "?m \<noteq> c"
    proof
      assume "?m = c"
      then have "length (stack um1) = length (stack um)"
        using e by (auto simp: add_entry_def Let_def py_set_def split: if_splits bind_splits)
      then show False using l101 assms(1) by simp
    qed
    then obtain x where x: "um1 = um\<lparr>mode := c,
          stack := del_from (stack um) (upos um + 1) @ [mk_UndoObject c t x (line cur)],
          upos := upos um + 1\<rparr>"
      and gx: "(if c = ''insert'' then map_option (\<lambda>g. g - len t) (get_x k s cur)
             else if c = ''delete'' then map_option (\<lambda>g. g + len t) (get_x k s cur)
             else None) = Some x"
      using e by (auto simp: add_entry_def Let_def split: if_splits bind_splits)
    have "length (del_from (stack um) (upos um + 1)) = 100"
      using l101 x by simp
    then have full: "del_from (stack um) (upos um + 1) = stack um" "length (stack um) = 100"
      and up: "100 \<le> upos um + 1"
      using assms(1) by (auto simp: del_from_def slice_index_def min_def split: if_splits)
    have ne: "stack um \<noteq> []" using full(2) by auto
    have indep: "add k s c t cur (um\<lparr>stack := e' # tl (stack um)\<rparr>) = Some um'" for e'
    proof -
      have "length (e' # tl (stack um)) = 100" using full(2) ne by simp
      then have d: "del_from (e' # tl (stack um)) (upos um + 1) = e' # tl (stack um)"
        using up by (simp add: del_from_def slice_index_def)
      have "add_entry k s c t cur (um\<lparr>stack := e' # tl (stack um)\<rparr>)
          = Some (um\<lparr>mode := c,
               stack := (e' # tl (stack um)) @ [mk_UndoObject c t x (line cur)],
               upos := upos um + 1\<rparr>)"
        using br gx d by (auto simp: add_entry_def Let_def split: if_splits)
      then show ?thesis
        using full ne by (simp add: add_def keep_small_drop um' x)
    qed
    show ?thesis using e True um' x full ne indep by (cases "stack um") auto
  qed
qed

theorem add_keeps_stack_bounded_witness:
  "length (stack um_full) \<le> 100 \<and>
   add 2 (doc_one ''ab'') ''insert'' ''c'' \<lparr>node = 1, pos = 2, line = 0\<rparr> um_full =
     Some \<lparr>stack = replicate 99 (mk_UndoObject ''insert'' ''a'' 0 0) @
                     [mk_UndoObject ''insert'' ''c'' 1 0],
           upos = 99, mode = ''insert''\<rparr> \<and>
   length (replicate 99 (mk_UndoObject ''insert'' ''a'' 0 0) @
           [mk_UndoObject ''insert'' ''c'' 1 0]) \<le> 100"
proof -
  have l: "length (stack um_full) \<le> 100" by (simp add: um_full_def)
  have r: "replicate 100 (mk_UndoObject ''insert'' ''a'' 0 0) =
      mk_UndoObject ''insert'' ''a'' 0 0 # replicate 99 (mk_UndoObject ''insert'' ''a'' 0 0)"
    by (simp add: replicate_Suc [symmetric] del: replicate_Suc)
  have a: "add 2 (doc_one ''ab'') ''insert'' ''c'' \<lparr>node = 1, pos = 2, line = 0\<rparr> um_full =
     Some \<lparr>stack = replicate 99 (mk_UndoObject ''insert'' ''a'' 0 0) @
                     [mk_UndoObject ''insert'' ''c'' 1 0],
           upos = 99, mode = ''insert''\<rparr>"
    by (simp add: add_def add_entry_def keep_small_def um_full_def
        get_x_doc_one [unfolded One_nat_def]
        del_from_def slice_index_def del_item_def item_index_def CR_def r)
  show ?thesis
    using add_keeps_stack_bounded [OF l a] l a by simp
qed


subsection \<open>Keys at the ends of the document\<close>


text \<open>
  C7: when the main root is in the arena and the node of the cursor is its BOS sentinel,
  \<^verbatim>\<open>key_backspace\<close> returns and the manager it leaves is the manager it got: the chain,
  the Line records and the undo log are as before.
\<close>

theorem backspace_at_start:
  assumes "get_root (heap tm) (mainroot tm) = Some r" and "node (cursor tm) = bos r"
  shows "key_backspace k X undo_mode tm = Some tm"
  using assms by (simp add: key_backspace_def)

theorem backspace_at_start_witness:
  "get_root (heap tm_start) (mainroot tm_start) = Some \<lparr>bos = 0, eos = 1, magic_backpointer = None\<rparr> \<and>
   node (cursor tm_start) = bos \<lparr>bos = 0, eos = 1, magic_backpointer = None\<rparr> \<and>
   key_backspace 1 idle True tm_start = Some tm_start"
proof -
  have r: "get_root (heap tm_start) (mainroot tm_start) =
      Some \<lparr>bos = 0, eos = 1, magic_backpointer = None\<rparr>"
    by (simp add: tm_start_def TreeManager_init_def doc_empty_def get_root_def)
  have c: "node (cursor tm_start) = bos \<lparr>bos = 0, eos = 1, magic_backpointer = None\<rparr>"
    by (simp add: tm_start_def TreeManager_init_def)
  show ?thesis using backspace_at_start [OF r c, of 1 idle True] r c by simp
qed

text \<open>
  C10: when there is no selection, the cursor is not inside its node, and the next visible
  node from the cursor is an EOS sentinel (which \<^verbatim>\<open>find_next_visible\<close> returns only for
  a root that no language box encloses), \<^verbatim>\<open>key_delete\<close> returns and the manager it leaves
  is the manager it got: the chain, the Line records and the undo stack are as before.
\<close>

theorem delete_at_end:
  assumes "\<not> hasSelection tm" and "inside (heap tm) (cursor tm) = Some False"
    and "find_next_visible k (heap tm) (node (cursor tm)) = Some e"
    and "get_node (heap tm) e = Some en" and "cls en = EOS"
  shows "key_delete k X undo_mode tm = Some tm"
proof -
  have "is_visible en \<or> cls en = EOS \<and> get_magicterminal (heap tm) en = Some None"
    using next_visible_loop_result assms(3,4)
    by (fastforce simp: find_next_visible_def split: bind_splits)
  then have lb: "get_languagebox tm e = Some None"
    using assms(4,5) by (auto simp: get_languagebox_def is_visible_def split: if_splits)
  obtain f where k: "k = Suc f"
    using assms(3) by (cases k) (auto simp: find_next_visible_def split: bind_splits)
  show ?thesis
    unfolding key_delete_def k
    using assms lb by (simp add: k)
qed

theorem delete_at_end_witness:
  "\<not> hasSelection tm_start \<and> inside (heap tm_start) (cursor tm_start) = Some False \<and>
   find_next_visible 2 (heap tm_start) (node (cursor tm_start)) = Some 1 \<and>
   get_node (heap tm_start) 1 = Some (sentinel EOS (Some 0) None 0) \<and>
   cls (sentinel EOS (Some 0) None 0) = EOS \<and>
   key_delete 2 idle True tm_start = Some tm_start"
proof -
  have h: "\<not> hasSelection tm_start" by code_simp
  have i: "inside (heap tm_start) (cursor tm_start) = Some False" by code_simp
  have f: "find_next_visible 2 (heap tm_start) (node (cursor tm_start)) = Some 1" by code_simp
  have g: "get_node (heap tm_start) 1 = Some (sentinel EOS (Some 0) None 0)" by code_simp
  have c: "cls (sentinel EOS (Some 0) None 0) = EOS" by code_simp
  show ?thesis using delete_at_end [OF h i f g c, of idle True] h i f g c by simp
qed

subsection \<open>Undo after a change of kind\<close>

text \<open>
  C1 at a concrete input. In the empty document the keys a, b, c are typed and coalesce
  into one insert entry; a backspace then removes the c and makes a delete entry, whose
  \<^verbatim>\<open>x2\<close> is the length of its text, 1, where the cursor's column is 2. One undo moves to
  column 1 and retypes the c there: the text is acb and the cursor is in column 2, where
  the state before the backspace had abc and column 3.
\<close>

theorem undo_retypes_at_wrong_column:
  "map_option summary typed_abc =
     Some ([[], [], ''abc''], \<lparr>node = 2, pos = 3, line = 0\<rparr>, 1) \<and>
   map_option summary (typed_abc \<bind> key_backspace 4 idle True) =
     Some ([[], [], ''ab''], \<lparr>node = 2, pos = 2, line = 0\<rparr>, 1) \<and>
   map_option (stack \<circ> undomanager) (typed_abc \<bind> key_backspace 4 idle True) =
     Some [\<lparr>cmd = ''insert'', utext = ''abc'', x1 = 0, line1 = 0, x2 = 3, line2 = 0\<rparr>,
           \<lparr>cmd = ''delete'', utext = ''c'', x1 = 3, line1 = 0, x2 = 1, line2 = 0\<rparr>] \<and>
   map_option summary (typed_abc \<bind> key_backspace 4 idle True \<bind> undo 4 idle) =
     Some ([[], [], ''acb''], \<lparr>node = 2, pos = 2, line = 0\<rparr>, 1)"
  by code_simp

subsection \<open>Line records\<close>








subsection \<open>The arena\<close>


lemma roots_set_node [simp]: "roots (set_node s i n) = roots s"
  by (simp add: set_node_def)

lemma length_set_node [simp]: "length (nodes (set_node s i n)) = length (nodes s)"
  by (simp add: set_node_def)

lemma get_root_set_node [simp]: "get_root (set_node s i n) r = get_root s r"
  by (simp add: get_root_def)






subsection \<open>Runs of indentation nodes\<close>








subsection \<open>Lines and indentation\<close>















section \<open>Deleting the one character of a language box\<close>

subsection \<open>What the repair of lines and indentation leaves alone\<close>

lemma frame_refl [simp]: "same_but_lines_heap tm tm"
  by (simp add: same_but_lines_heap_def)

lemma frame_lines [simp]: "same_but_lines_heap tm (tm\<lparr>lines := ls\<rparr>)"
  by (simp add: same_but_lines_heap_def)

lemma frame_heap [simp]: "same_but_lines_heap tm (tm\<lparr>heap := s\<rparr>)"
  by (simp add: same_but_lines_heap_def)

lemma frame_trans:
  "same_but_lines_heap a b \<Longrightarrow> same_but_lines_heap b c \<Longrightarrow> same_but_lines_heap a c"
  unfolding same_but_lines_heap_def
  by (cases a, cases b, cases c) simp

lemma frame_heap_after:
  "same_but_lines_heap a b \<Longrightarrow> same_but_lines_heap a (b\<lparr>heap := s\<rparr>)"
  by (rule frame_trans [OF _ frame_heap])















subsection \<open>The language box with one character\<close>

lemma box_distinct: "one_char_box s m r b c e p q ch \<Longrightarrow> distinct [p, m, q, b, c, e]"
  by (simp add: one_char_box_def)











lemma roots_without_box [simp]: "roots (without_box s m c p q) = roots s"
  by (simp add: without_box_def)

lemma get_root_without_box [simp]: "get_root (without_box s m c p q) r = get_root s r"
  by (simp add: get_root_def)




subsection \<open>The binding table\<close>






subsection \<open>The way back from the box\<close>



subsection \<open>The visible nodes\<close>






subsection \<open>Lines 643 to 664 on the box\<close>








subsection \<open>After the lexer, the repair of the lines and the parser\<close>



subsection \<open>A document without indentation-based grammar\<close>


lemma set_ws_heap: "set_ws tm y v = Some tm' \<Longrightarrow> heap tm' = heap tm"
  by (auto simp: set_ws_def split: bind_splits)




















end
